theory Spec2Isabelle
  imports
    Main
    "HOL-Library.Char_ord"
    "HOL-Library.List_Lexorder"
    "HOL-Library.Sublist"
    "HOL-Library.AList"
    "HOL-Library.Monad_Syntax"
    "HOL-Library.Word"
begin

unbundle bit_operations_syntax

section \<open>Preliminaries\<close>

text \<open>
  Go strings and byte slices (\<^verbatim>\<open>string\<close>, \<^verbatim>\<open>[]byte\<close>, \<^verbatim>\<open>json.RawMessage\<close>) are sequences
  of bytes: they are modelled as \<^typ>\<open>string\<close>, a list of 8-bit characters.  \<^verbatim>\<open>len(s)\<close> is
  \<^term>\<open>length s\<close>, and Go's \<^verbatim>\<open><\<close> on strings (used by \<^verbatim>\<open>sort.Strings\<close>) is the
  lexicographic order on the byte values, which is the order of \<^typ>\<open>char list\<close> here.
\<close>

abbreviation CR :: char where "CR \<equiv> CHR 0x0D"
abbreviation LF :: char where "LF \<equiv> CHR 0x0A"
abbreviation DQ :: char where "DQ \<equiv> CHR 0x22"
abbreviation BSL :: char where "BSL \<equiv> CHR 0x5C"

text \<open>
  Go errors.  \<open>Err msg\<close> is \<^verbatim>\<open>errors.New(msg)\<close>; \<open>DecodeError\<close> stands for any error
  reported by the decoder of \<^verbatim>\<open>encoding/json\<close> for input that is not one well-formed JSON
  value (\<^verbatim>\<open>*json.SyntaxError\<close>, \<^verbatim>\<open>io.EOF\<close>, \<^verbatim>\<open>io.ErrUnexpectedEOF\<close>);
  \<open>UnmarshalTypeError\<close> is \<^verbatim>\<open>*json.UnmarshalTypeError\<close>; \<open>ParseError\<close> is the
  \<^verbatim>\<open>*time.ParseError\<close> of \<^verbatim>\<open>time.Parse\<close>; \<open>Wrapped p e\<close> is
  \<^verbatim>\<open>fmt.Errorf(p + ": %w", e)\<close>.
\<close>

datatype error =
    Err string
  | DecodeError
  | UnmarshalTypeError
  | ParseError
  | Wrapped string error

section \<open>Package model: the intent record\<close>

record IntentRecord =
  ID :: string
  CreatedAt :: string
  Author :: string
  SourceType :: string
  Title :: string
  Prompt :: string
  Response :: string
  Meta :: string
  PrevHash :: string
  Hash :: string

text \<open>
  \<^verbatim>\<open>strings.ReplaceAll(s, old, new)\<close> for a non-empty \<open>old\<close>: the non-overlapping
  occurrences of \<open>old\<close> are replaced from left to right.  (For an empty \<open>old\<close> Go inserts
  \<open>new\<close> around every UTF-8 sequence; the program never passes one, and the model leaves
  the string unchanged there.)
\<close>

function ReplaceAll :: "string \<Rightarrow> string \<Rightarrow> string \<Rightarrow> string" where
  "ReplaceAll [] old new = []"
| "ReplaceAll (c # s) old new =
     (if old \<noteq> [] \<and> prefix old (c # s)
      then new @ ReplaceAll (drop (length old) (c # s)) old new
      else c # ReplaceAll s old new)"
  by pat_completeness auto
termination
proof (relation "measure (\<lambda>(s, old, new). length s)")
  fix c :: char and s old new :: string
  assume "old \<noteq> [] \<and> prefix old (c # s)"
  then have "0 < length old" by simp
  then show "((drop (length old) (c # s), old, new), (c # s, old, new))
      \<in> measure (\<lambda>(s, old, new). length s)"
    by simp
qed simp_all

definition normalizeNewlines :: "string \<Rightarrow> string" where
  "normalizeNewlines v =
     (if v = [] then v
      else ReplaceAll (ReplaceAll v [CR, LF] [LF]) [CR] [LF])"

definition Normalize :: "IntentRecord \<Rightarrow> IntentRecord" where
  "Normalize r = r
     \<lparr> Author := normalizeNewlines (Author r),
       SourceType := normalizeNewlines (SourceType r),
       Title := normalizeNewlines (Title r),
       Prompt := normalizeNewlines (Prompt r),
       Response := normalizeNewlines (Response r),
       PrevHash := normalizeNewlines (PrevHash r) \<rparr>"


section \<open>Standard library: UTF-8 and JSON strings\<close>

abbreviation byte :: "char \<Rightarrow> nat" where "byte c \<equiv> of_char c"

text \<open>
  \<^verbatim>\<open>utf8.DecodeRune\<close>: the length of the well-formed UTF-8 sequence at the head of the
  string, or 0 where Go returns \<^verbatim>\<open>(RuneError, 1)\<close> (the table of accepted ranges of
  package \<^verbatim>\<open>unicode/utf8\<close>: no overlong forms, no surrogates, nothing above U+10FFFF).
\<close>

definition conts :: "nat \<Rightarrow> string \<Rightarrow> bool" where
  "conts n s \<longleftrightarrow> n \<le> length s \<and> list_all (\<lambda>c. 0x80 \<le> byte c \<and> byte c \<le> 0xBF) (take n s)"

fun utf8_len :: "string \<Rightarrow> nat" where
  "utf8_len [] = 0"
| "utf8_len (c # s) =
     (let b = byte c in
      if b < 0x80 then 1
      else if 0xC2 \<le> b \<and> b \<le> 0xDF then (if conts 1 s then 2 else 0)
      else if 0xE0 \<le> b \<and> b \<le> 0xEF then
        (case s of [] \<Rightarrow> 0
         | c1 # r \<Rightarrow>
             if (if b = 0xE0 then 0xA0 else 0x80) \<le> byte c1
                \<and> byte c1 \<le> (if b = 0xED then 0x9F else 0xBF) \<and> conts 1 r
             then 3 else 0)
      else if 0xF0 \<le> b \<and> b \<le> 0xF4 then
        (case s of [] \<Rightarrow> 0
         | c1 # r \<Rightarrow>
             if (if b = 0xF0 then 0x90 else 0x80) \<le> byte c1
                \<and> byte c1 \<le> (if b = 0xF4 then 0x8F else 0xBF) \<and> conts 2 r
             then 4 else 0)
      else 0)"

text \<open>\<^verbatim>\<open>utf8.EncodeRune\<close> for a code point that is not a surrogate and at most U+10FFFF.\<close>

definition EncodeRune :: "nat \<Rightarrow> string" where
  "EncodeRune r =
     (if r < 0x80 then [char_of r]
      else if r < 0x800 then [char_of (0xC0 + r div 64), char_of (0x80 + r mod 64)]
      else if r < 0x10000 then
        [char_of (0xE0 + r div 4096), char_of (0x80 + r div 64 mod 64), char_of (0x80 + r mod 64)]
      else
        [char_of (0xF0 + r div 262144), char_of (0x80 + r div 4096 mod 64),
         char_of (0x80 + r div 64 mod 64), char_of (0x80 + r mod 64)])"

definition hexdigits :: string where
  "hexdigits = ''0123456789abcdef''"

definition hexdigit :: "nat \<Rightarrow> char" where
  "hexdigit n = hexdigits ! n"

text \<open>
  \<^verbatim>\<open>json.Marshal\<close> of a Go string (the encoder's \<^verbatim>\<open>appendString\<close> with HTML escaping on,
  which is what \<^verbatim>\<open>json.Marshal\<close> uses): the quote and the backslash are escaped with a
  backslash, \<^verbatim>\<open>\b \f \n \r \t\<close> get their short forms, the other control characters and
  \<^verbatim>\<open>< > &\<close> become \<^verbatim>\<open>\u00XX\<close>, a byte that starts no well-formed UTF-8 sequence becomes
  the escape of U+FFFD, U+2028 and U+2029 are escaped, and everything else is copied.
\<close>

definition htmlSafe :: "char \<Rightarrow> bool" where
  "htmlSafe c \<longleftrightarrow>
     0x20 \<le> byte c \<and> c \<noteq> DQ \<and> c \<noteq> BSL \<and> c \<noteq> CHR ''<'' \<and> c \<noteq> CHR ''>'' \<and> c \<noteq> CHR ''&''"

definition escapeByte :: "char \<Rightarrow> string" where
  "escapeByte c =
     (if c = BSL \<or> c = DQ then [BSL, c]
      else if c = CHR 0x08 then [BSL, CHR ''b'']
      else if c = CHR 0x0C then [BSL, CHR ''f'']
      else if c = LF then [BSL, CHR ''n'']
      else if c = CR then [BSL, CHR ''r'']
      else if c = CHR 0x09 then [BSL, CHR ''t'']
      else [BSL, CHR ''u'', CHR ''0'', CHR ''0'', hexdigit (byte c div 16), hexdigit (byte c mod 16)])"

function appendString :: "string \<Rightarrow> string" where
  "appendString [] = []"
| "appendString (c # s) =
     (if byte c < 0x80 then
        (if htmlSafe c then [c] else escapeByte c) @ appendString s
      else
        (let n = utf8_len (c # s) in
         if n = 0 then [BSL, CHR ''u'', CHR ''f'', CHR ''f'', CHR ''f'', CHR ''d''] @ appendString s
         else if take 3 (c # s) = [CHR 0xE2, CHR 0x80, CHR 0xA8] then
           [BSL, CHR ''u'', CHR ''2'', CHR ''0'', CHR ''2'', CHR ''8''] @ appendString (drop 2 s)
         else if take 3 (c # s) = [CHR 0xE2, CHR 0x80, CHR 0xA9] then
           [BSL, CHR ''u'', CHR ''2'', CHR ''0'', CHR ''2'', CHR ''9''] @ appendString (drop 2 s)
         else take n (c # s) @ appendString (drop (n - 1) s)))"
  by pat_completeness auto
termination
  by (relation "measure length") auto

definition jsonMarshalString :: "string \<Rightarrow> string" where
  "jsonMarshalString s = [DQ] @ appendString s @ [DQ]"


section \<open>Standard library: the JSON decoder\<close>

text \<open>
  The values a decoder with \<^verbatim>\<open>UseNumber()\<close> stores into an \<^verbatim>\<open>any\<close>: \<^verbatim>\<open>nil\<close>,
  \<^verbatim>\<open>bool\<close>, \<^verbatim>\<open>string\<close>, \<^verbatim>\<open>json.Number\<close> (the literal text of the number),
  \<^verbatim>\<open>[]any\<close> and \<^verbatim>\<open>map[string]any\<close>.  A Go map is modelled as an association list with
  distinct keys; the order of the list stands for the (unspecified) iteration order of the map.
\<close>

datatype json =
    JNull
  | JBool bool
  | JString string
  | JNumber string
  | JArray "json list"
  | JObject "(string \<times> json) list"

datatype token =
    TLBrace | TRBrace | TLBrack | TRBrack | TColon | TComma
  | TStr string | TNum string | TTrue | TFalse | TNull
  | TBad

definition isSpace :: "char \<Rightarrow> bool" where
  "isSpace c \<longleftrightarrow> c = CHR '' '' \<or> c = CHR 0x09 \<or> c = CR \<or> c = LF"

definition isDigit :: "char \<Rightarrow> bool" where
  "isDigit c \<longleftrightarrow> CHR ''0'' \<le> c \<and> c \<le> CHR ''9''"

definition hexval :: "char \<Rightarrow> nat option" where
  "hexval c =
     (if CHR ''0'' \<le> c \<and> c \<le> CHR ''9'' then Some (byte c - byte (CHR ''0''))
      else if CHR ''a'' \<le> c \<and> c \<le> CHR ''f'' then Some (byte c - byte (CHR ''a'') + 10)
      else if CHR ''A'' \<le> c \<and> c \<le> CHR ''F'' then Some (byte c - byte (CHR ''A'') + 10)
      else None)"

text \<open>\<^verbatim>\<open>getu4\<close>: the four hexadecimal digits of a \<^verbatim>\<open>\uXXXX\<close> escape.\<close>

fun getu4 :: "string \<Rightarrow> nat option" where
  "getu4 (a # b # c # d # s) =
     (case (hexval a, hexval b, hexval c, hexval d) of
        (Some x, Some y, Some z, Some w) \<Rightarrow> Some (((x * 16 + y) * 16 + z) * 16 + w)
      | _ \<Rightarrow> None)"
| "getu4 _ = None"

definition simpleEscape :: "char \<Rightarrow> char option" where
  "simpleEscape e =
     (if e = DQ \<or> e = BSL \<or> e = CHR ''/'' then Some e
      else if e = CHR ''b'' then Some (CHR 0x08)
      else if e = CHR ''f'' then Some (CHR 0x0C)
      else if e = CHR ''n'' then Some LF
      else if e = CHR ''r'' then Some CR
      else if e = CHR ''t'' then Some (CHR 0x09)
      else None)"

definition replacementChar :: string where
  "replacementChar = [CHR 0xEF, CHR 0xBF, CHR 0xBD]"

text \<open>
  A string literal, read from just after its opening quote: the scanner's rules (no raw
  control character, only the JSON escapes) and \<^verbatim>\<open>unquote\<close> (escapes decoded, a surrogate
  pair of \<^verbatim>\<open>\u\<close> escapes combined, a lone surrogate and every byte that starts no
  well-formed UTF-8 sequence replaced by U+FFFD).  The result is the Go string and the
  input after the closing quote.
\<close>

function scanString :: "string \<Rightarrow> string \<Rightarrow> (string \<times> string) option" where
  "scanString acc [] = None"
| "scanString acc (c # s) =
     (if c = DQ then Some (rev acc, s)
      else if c = BSL then
        (case s of
           [] \<Rightarrow> None
         | e # s' \<Rightarrow>
            if e = CHR ''u'' then
              (case getu4 s' of
                 None \<Rightarrow> None
               | Some r \<Rightarrow>
                  if 0xD800 \<le> r \<and> r < 0xE000 then
                    (case (if take 2 (drop 4 s') = [BSL, CHR ''u''] then getu4 (drop 6 s') else None) of
                       None \<Rightarrow> scanString (rev replacementChar @ acc) (drop 4 s')
                     | Some r2 \<Rightarrow>
                        if r < 0xDC00 \<and> 0xDC00 \<le> r2 \<and> r2 < 0xE000
                        then scanString
                               (rev (EncodeRune ((r - 0xD800) * 1024 + (r2 - 0xDC00) + 0x10000)) @ acc)
                               (drop 10 s')
                        else scanString (rev replacementChar @ acc) (drop 4 s'))
                  else scanString (rev (EncodeRune r) @ acc) (drop 4 s'))
            else
              (case simpleEscape e of
                 None \<Rightarrow> None
               | Some x \<Rightarrow> scanString (x # acc) s'))
      else if byte c < 0x20 then None
      else if byte c < 0x80 then scanString (c # acc) s
      else
        (let n = utf8_len (c # s) in
         if n = 0 then scanString (rev replacementChar @ acc) s
         else scanString (rev (take n (c # s)) @ acc) (drop (n - 1) s)))"
  by pat_completeness auto
termination
  by (relation "measure (\<lambda>(acc, s). length s)") auto

text \<open>
  A number literal, by the scanner's grammar:
  \<^verbatim>\<open>-? (0 | [1-9][0-9]*) (. [0-9]+)? ([eE] [+-]? [0-9]+)?\<close>.  The result is the text of
  the literal and the input after it.
\<close>

definition scanFrac :: "string \<Rightarrow> (string \<times> string) option" where
  "scanFrac s =
     (case s of
        c # s' \<Rightarrow>
          if c = CHR ''.'' then
            (if takeWhile isDigit s' = [] then None
             else Some (c # takeWhile isDigit s', dropWhile isDigit s'))
          else Some ([], s)
      | [] \<Rightarrow> Some ([], s))"

definition scanExp :: "string \<Rightarrow> (string \<times> string) option" where
  "scanExp s =
     (case s of
        c # s' \<Rightarrow>
          if c = CHR ''e'' \<or> c = CHR ''E'' then
            (let (sign, s'') =
               (case s' of
                  d # t \<Rightarrow> if d = CHR ''+'' \<or> d = CHR ''-'' then ([d], t) else ([], s')
                | [] \<Rightarrow> ([], s'))
             in if takeWhile isDigit s'' = [] then None
                else Some (c # sign @ takeWhile isDigit s'', dropWhile isDigit s''))
          else Some ([], s)
      | [] \<Rightarrow> Some ([], s))"

definition scanInt :: "string \<Rightarrow> (string \<times> string) option" where
  "scanInt s =
     (case s of
        c # s' \<Rightarrow>
          if c = CHR ''0'' then Some ([c], s')
          else if isDigit c then Some (c # takeWhile isDigit s', dropWhile isDigit s')
          else None
      | [] \<Rightarrow> None)"

definition scanNumber :: "string \<Rightarrow> (string \<times> string) option" where
  "scanNumber s =
     (let (sign, s1) =
        (case s of c # t \<Rightarrow> if c = CHR ''-'' then ([c], t) else ([], s) | [] \<Rightarrow> ([], s))
      in case scanInt s1 of
           None \<Rightarrow> None
         | Some (i, s2) \<Rightarrow>
            (case scanFrac s2 of
               None \<Rightarrow> None
             | Some (f, s3) \<Rightarrow>
                (case scanExp s3 of
                   None \<Rightarrow> None
                 | Some (e, s4) \<Rightarrow> Some (sign @ i @ f @ e, s4))))"



lemma scanString_shorter:
  "scanString acc s = Some (v, r) \<Longrightarrow> length r < length s"
proof (induction acc s rule: scanString.induct)
  case (1 acc)
  then show ?case by simp
next
  case (2 acc c s)
  show ?case
  proof (cases "c = DQ")
    case True
    with "2.prems" show ?thesis by simp
  next
    case nq: False
    show ?thesis
    proof (cases "c = BSL")
      case True
      with nq "2.prems" obtain e s' where s: "s = e # s'"
        by (cases s) auto
      show ?thesis
      proof (cases "e = CHR ''u''")
        case False
        with nq True s "2.prems" "2.IH"(5)[OF nq True s False] show ?thesis
          by (auto split: option.splits)
      next
        case u: True
        with nq True s "2.prems" obtain r0 where g: "getu4 s' = Some r0"
          by (auto split: option.splits)
        note ih = "2.IH"(1-4)[OF nq True s u g]
        from nq True s u g "2.prems" ih show ?thesis
          by (auto split: if_splits option.splits)
      qed
    next
      case nb: False
      show ?thesis
      proof (cases "byte c < 0x80")
        case True
        with nq nb "2.prems" "2.IH"(6) show ?thesis
          by (auto split: if_splits)
      next
        case False
        with nq nb "2.prems" "2.IH"(7,8) show ?thesis
          by (auto simp: Let_def split: if_splits)
      qed
    qed
  qed
qed

lemma scanInt_shorter: "scanInt s = Some (i, r) \<Longrightarrow> length r < length s"
  using length_dropWhile_le[of isDigit]
  by (auto simp: scanInt_def le_imp_less_Suc split: list.splits if_splits)

lemma scanFrac_shorter: "scanFrac s = Some (f, r) \<Longrightarrow> length r \<le> length s"
  using length_dropWhile_le[of isDigit]
  by (auto simp: scanFrac_def le_SucI split: list.splits if_splits)

lemma scanExp_shorter: "scanExp s = Some (e, r) \<Longrightarrow> length r \<le> length s"
  using length_dropWhile_le[of isDigit]
  by (auto simp: scanExp_def Let_def le_SucI split: list.splits if_splits prod.splits)

lemma scanNumber_shorter:
  assumes "scanNumber s = Some (n, r)"
  shows "length r < length s"
proof -
  from assms obtain sign s1 i s2 f s3 e where
    s1: "(sign, s1) =
           (case s of c # t \<Rightarrow> if c = CHR ''-'' then ([c], t) else ([], s) | [] \<Rightarrow> ([], s))"
    and i: "scanInt s1 = Some (i, s2)"
    and f: "scanFrac s2 = Some (f, s3)"
    and e: "scanExp s3 = Some (e, r)"
    by (auto simp: scanNumber_def Let_def split: prod.splits option.splits)
  from s1 have "length s1 \<le> length s"
    by (auto split: list.splits if_splits)
  with scanInt_shorter[OF i] scanFrac_shorter[OF f] scanExp_shorter[OF e]
  show ?thesis by linarith
qed

text \<open>
  The tokens of the input, up to the first byte that starts none (\<open>TBad\<close>); white space
  between tokens is skipped.
\<close>

function lex :: "string \<Rightarrow> token list" where
  "lex [] = []"
| "lex (c # s) =
     (if isSpace c then lex s
      else if c = CHR ''{'' then TLBrace # lex s
      else if c = CHR ''}'' then TRBrace # lex s
      else if c = CHR ''['' then TLBrack # lex s
      else if c = CHR '']'' then TRBrack # lex s
      else if c = CHR '':'' then TColon # lex s
      else if c = CHR '','' then TComma # lex s
      else if c = DQ then
        (case scanString [] s of
           None \<Rightarrow> [TBad]
         | Some (v, r) \<Rightarrow> TStr v # lex r)
      else if c = CHR ''-'' \<or> isDigit c then
        (case scanNumber (c # s) of
           None \<Rightarrow> [TBad]
         | Some (n, r) \<Rightarrow> TNum n # lex r)
      else if prefix ''true'' (c # s) then TTrue # lex (drop 3 s)
      else if prefix ''false'' (c # s) then TFalse # lex (drop 4 s)
      else if prefix ''null'' (c # s) then TNull # lex (drop 3 s)
      else [TBad])"
  by pat_completeness auto
termination
proof (relation "measure length")
  show "wf (measure length)" by simp
  show "(r, c # s) \<in> measure length"
    if "scanString [] s = Some x" "(v, r) = x" for c s x v r
    using scanString_shorter[of "[]" s v r] that by simp
  show "(r, c # s) \<in> measure length"
    if "scanNumber (c # s) = Some x" "(n, r) = x" for c s x n r
    using scanNumber_shorter[of "c # s" n r] that by simp
qed auto


text \<open>
  The parser: one JSON value from the front of the token list.  The stack holds one frame
  for every array or object that is still open; the frame says what has been read of it
  and so which tokens may follow.  \<^verbatim>\<open>m[key] = value\<close> on a Go map is
  \<^const>\<open>AList.update\<close>: a later member with the same key replaces the earlier value.
  The scanner refuses more than 10000 open arrays and objects.
\<close>

datatype frame =
    ArrStart
  | ArrValue "json list"
  | ArrNext "json list"
  | ObjStart
  | ObjKey "(string \<times> json) list"
  | ObjColon "(string \<times> json) list" string
  | ObjValue "(string \<times> json) list" string
  | ObjNext "(string \<times> json) list"

datatype pstate = Done json | More "frame list"

definition maxNestingDepth :: nat where
  "maxNestingDepth = 10000"

fun endValue :: "json \<Rightarrow> frame list \<Rightarrow> pstate option" where
  "endValue v [] = Some (Done v)"
| "endValue v (ArrStart # st) = Some (More (ArrNext [v] # st))"
| "endValue v (ArrValue xs # st) = Some (More (ArrNext (xs @ [v]) # st))"
| "endValue v (ObjValue m k # st) = Some (More (ObjNext (AList.update k v m) # st))"
| "endValue v _ = None"

fun beginValue :: "token \<Rightarrow> frame list \<Rightarrow> pstate option" where
  "beginValue (TStr s) st = endValue (JString s) st"
| "beginValue (TNum n) st = endValue (JNumber n) st"
| "beginValue TTrue st = endValue (JBool True) st"
| "beginValue TFalse st = endValue (JBool False) st"
| "beginValue TNull st = endValue JNull st"
| "beginValue TLBrack st =
     (if length st < maxNestingDepth then Some (More (ArrStart # st)) else None)"
| "beginValue TLBrace st =
     (if length st < maxNestingDepth then Some (More (ObjStart # st)) else None)"
| "beginValue _ st = None"

fun step :: "frame list \<Rightarrow> token \<Rightarrow> pstate option" where
  "step [] t = beginValue t []"
| "step (ArrStart # st) t =
     (if t = TRBrack then endValue (JArray []) st else beginValue t (ArrStart # st))"
| "step (ArrValue xs # st) t = beginValue t (ArrValue xs # st)"
| "step (ArrNext xs # st) t =
     (if t = TComma then Some (More (ArrValue xs # st))
      else if t = TRBrack then endValue (JArray xs) st
      else None)"
| "step (ObjStart # st) t =
     (case t of
        TStr k \<Rightarrow> Some (More (ObjColon [] k # st))
      | TRBrace \<Rightarrow> endValue (JObject []) st
      | _ \<Rightarrow> None)"
| "step (ObjKey m # st) t =
     (case t of TStr k \<Rightarrow> Some (More (ObjColon m k # st)) | _ \<Rightarrow> None)"
| "step (ObjColon m k # st) t =
     (if t = TColon then Some (More (ObjValue m k # st)) else None)"
| "step (ObjValue m k # st) t = beginValue t (ObjValue m k # st)"
| "step (ObjNext m # st) t =
     (if t = TComma then Some (More (ObjKey m # st))
      else if t = TRBrace then endValue (JObject m) st
      else None)"

fun run :: "frame list \<Rightarrow> token list \<Rightarrow> (json \<times> token list) option" where
  "run st [] = None"
| "run st (t # ts) =
     (case step st t of
        None \<Rightarrow> None
      | Some (Done v) \<Rightarrow> Some (v, ts)
      | Some (More st') \<Rightarrow> run st' ts)"

definition parseValue :: "string \<Rightarrow> (json \<times> token list) option" where
  "parseValue raw = run [] (lex raw)"

section \<open>Package hash: canonical metadata\<close>

text \<open>
  \<^verbatim>\<open>decodeJSON\<close>: the first \<^verbatim>\<open>Decode\<close> reads one value (numbers kept as
  \<^verbatim>\<open>json.Number\<close>); \<^verbatim>\<open>ensureEOF\<close> asks for a second one and accepts only
  \<^verbatim>\<open>io.EOF\<close>, which the decoder reports exactly when nothing but white space is left.
\<close>

definition decodeJSON :: "string \<Rightarrow> error + json" where
  "decodeJSON raw =
     (case parseValue raw of
        None \<Rightarrow> Inl DecodeError
      | Some (v, rest) \<Rightarrow>
          if rest = [] then Inr v else Inl (Err ''unexpected trailing JSON data''))"

fun commaSep :: "string list \<Rightarrow> string" where
  "commaSep [] = []"
| "commaSep [x] = x"
| "commaSep (x # y # zs) = x @ '','' @ commaSep (y # zs)"

lemma size_map_of_less:
  "k \<in> set (map fst m) \<Longrightarrow> size (the (map_of m k)) < Suc (size_list (size_prod (\<lambda>_. 0) size) m)"
  by (induction m) (force simp: less_Suc_eq_le)+

text \<open>
  \<^verbatim>\<open>writeJSONValue\<close> and \<^verbatim>\<open>writeJSONObject\<close> append to a \<^verbatim>\<open>strings.Builder\<close>; the
  model returns the text appended.  Their only error is the one \<^verbatim>\<open>json.Marshal\<close> gives
  in the \<^verbatim>\<open>default\<close> branch, for a dynamic type that a decoded value never has, and the
  \<^verbatim>\<open>float64\<close> branch is not reached either, the decoder being in \<^verbatim>\<open>UseNumber\<close> mode:
  both branches have no counterpart in \<^typ>\<open>json\<close>.  \<^verbatim>\<open>obj[key]\<close>, for a key taken from
  the map, is \<^term>\<open>the (map_of obj key)\<close>.
\<close>

function writeJSONValue :: "json \<Rightarrow> string"
  and writeJSONObject :: "(string \<times> json) list \<Rightarrow> string" where
  "writeJSONValue JNull = ''null''"
| "writeJSONValue (JBool v) = (if v then ''true'' else ''false'')"
| "writeJSONValue (JString v) = jsonMarshalString v"
| "writeJSONValue (JNumber v) = v"
| "writeJSONValue (JArray v) = ''['' @ commaSep (map writeJSONValue v) @ '']''"
| "writeJSONValue (JObject v) = writeJSONObject v"
| "writeJSONObject obj =
     (let keys = sort (map fst obj) in
      ''{'' @ commaSep (map (\<lambda>key. jsonMarshalString key @ '':''
                                    @ writeJSONValue (the (map_of obj key))) keys)
          @ ''}'')"
  by pat_completeness auto
termination
proof (relation "measure (\<lambda>x. case x of Inl v \<Rightarrow> 2 * size v + 1
                                         | Inr m \<Rightarrow> 2 * size (JObject m))")
  show "(Inl (the (map_of obj key)), Inr obj)
      \<in> measure (\<lambda>x. case x of Inl v \<Rightarrow> 2 * size v + 1 | Inr m \<Rightarrow> 2 * size (JObject m))"
    if "keys = sort (map fst obj)" "key \<in> set keys" for obj keys key
    using size_map_of_less[of key obj] that by simp
  show "(Inl x, Inl (JArray v))
      \<in> measure (\<lambda>x. case x of Inl v \<Rightarrow> 2 * size v + 1 | Inr m \<Rightarrow> 2 * size (JObject m))"
    if "x \<in> set v" for x v
    using that by (induction v) auto
qed auto

definition CanonicalizeMeta :: "string \<Rightarrow> error + string" where
  "CanonicalizeMeta raw =
     (if length raw = 0 then Inr []
      else case decodeJSON raw of
             Inl err \<Rightarrow> Inl err
           | Inr v \<Rightarrow>
              (case v of
                 JObject obj \<Rightarrow> Inr (writeJSONObject obj)
               | _ \<Rightarrow> Inl (Err ''meta must be a JSON object'')))"


section \<open>Standard library: timestamps\<close>

text \<open>
  A \<^verbatim>\<open>time.Time\<close>: the instant, as seconds since 1970-01-01T00:00:00Z and nanoseconds
  within the second, and the offset of its location in seconds east of UTC.
\<close>

record Time =
  unixSec :: int
  nsec :: int
  zoneOffset :: int

definition isLeap :: "int \<Rightarrow> bool" where
  "isLeap y \<longleftrightarrow> y mod 4 = 0 \<and> (y mod 100 \<noteq> 0 \<or> y mod 400 = 0)"

definition daysIn :: "int \<Rightarrow> int \<Rightarrow> int" where
  "daysIn m y =
     (if m = 2 then (if isLeap y then 29 else 28)
      else if m = 4 \<or> m = 6 \<or> m = 9 \<or> m = 11 then 30
      else 31)"

text \<open>Days between 1970-01-01 and a date of the proleptic Gregorian calendar, and back.\<close>

definition daysFromCivil :: "int \<Rightarrow> int \<Rightarrow> int \<Rightarrow> int" where
  "daysFromCivil y m d =
     (let y' = (if m \<le> 2 then y - 1 else y);
          era = y' div 400;
          yoe = y' - era * 400;
          doy = (153 * (if m > 2 then m - 3 else m + 9) + 2) div 5 + d - 1;
          doe = yoe * 365 + yoe div 4 - yoe div 100 + doy
      in era * 146097 + doe - 719468)"

definition civilFromDays :: "int \<Rightarrow> int \<times> int \<times> int" where
  "civilFromDays z =
     (let z' = z + 719468;
          era = z' div 146097;
          doe = z' - era * 146097;
          yoe = (doe - doe div 1460 + doe div 36524 - doe div 146096) div 365;
          doy = doe - (365 * yoe + yoe div 4 - yoe div 100);
          mp = (5 * doy + 2) div 153;
          d = doy - (153 * mp + 2) div 5 + 1;
          m = (if mp < 10 then mp + 3 else mp - 9);
          y = yoe + era * 400
      in (if m \<le> 2 then y + 1 else y, m, d))"

text \<open>\<^verbatim>\<open>time.Date(year, month, day, hour, min, sec, nsec, time.UTC)\<close>.\<close>

definition Date :: "int \<Rightarrow> int \<Rightarrow> int \<Rightarrow> int \<Rightarrow> int \<Rightarrow> int \<Rightarrow> int \<Rightarrow> Time" where
  "Date y m d hh mm ss ns =
     \<lparr> unixSec = daysFromCivil y m d * 86400 + hh * 3600 + mm * 60 + ss,
       nsec = ns, zoneOffset = 0 \<rparr>"

definition digitVal :: "char \<Rightarrow> int" where
  "digitVal c = of_char c - of_char (CHR ''0'')"

text \<open>\<^verbatim>\<open>getnum(s, fixed)\<close>: a number of one or two digits, of two when \<open>fixed\<close>.\<close>

definition getnum :: "string \<Rightarrow> bool \<Rightarrow> (int \<times> string) option" where
  "getnum s fixed =
     (case s of
        [] \<Rightarrow> None
      | c0 # r0 \<Rightarrow>
          if \<not> isDigit c0 then None
          else (case r0 of
                  [] \<Rightarrow> if fixed then None else Some (digitVal c0, r0)
                | c1 # r1 \<Rightarrow>
                    if isDigit c1 then Some (digitVal c0 * 10 + digitVal c1, r1)
                    else if fixed then None
                    else Some (digitVal c0, r0)))"

definition skip :: "string \<Rightarrow> char \<Rightarrow> string option" where
  "skip v c = (case v of x # r \<Rightarrow> if x = c then Some r else None | [] \<Rightarrow> None)"

definition atoi :: "string \<Rightarrow> int" where
  "atoi ds = foldl (\<lambda>x c. x * 10 + digitVal c) 0 ds"

definition commaOrPeriod :: "char \<Rightarrow> bool" where
  "commaOrPeriod c \<longleftrightarrow> c = CHR ''.'' \<or> c = CHR '',''"

text \<open>
  The fractional second of the layout element \<^verbatim>\<open>.999999999\<close>: absent unless a separator
  and a digit follow; all the digits are taken and \<^verbatim>\<open>parseNanoseconds\<close> reads the first
  nine, scaled to nanoseconds.
\<close>

definition parseFrac :: "string \<Rightarrow> int \<times> string" where
  "parseFrac v =
     (case v of
        c # d # r \<Rightarrow>
          if commaOrPeriod c \<and> isDigit d then
            (let ds = takeWhile isDigit (d # r);
                 ds9 = take 9 ds
             in (atoi ds9 * 10 ^ (9 - length ds9), dropWhile isDigit (d # r)))
          else (0, v)
      | _ \<Rightarrow> (0, v))"

text \<open>
  The zone of the layout element \<^verbatim>\<open>Z07:00\<close>: \<^verbatim>\<open>Z\<close>, or a sign, two digits, a colon
  and two digits (hours up to 24 and minutes up to 60 are let through).  The result is
  the offset in seconds and the rest of the input.
\<close>

definition parseZone :: "string \<Rightarrow> (int \<times> string) option" where
  "parseZone v =
     (case v of
        [] \<Rightarrow> None
      | z # r \<Rightarrow>
          if z = CHR ''Z'' then Some (0, r)
          else if length v < 6 then None
          else if v ! 3 \<noteq> CHR '':'' then None
          else
            (case (getnum (take 2 (drop 1 v)) True, getnum (take 2 (drop 4 v)) True) of
               (Some (hr, _), Some (mm, _)) \<Rightarrow>
                 if hr > 24 \<or> mm > 60 then None
                 else if z = CHR ''+'' then Some ((hr * 60 + mm) * 60, drop 6 v)
                 else if z = CHR ''-'' then Some (- ((hr * 60 + mm) * 60), drop 6 v)
                 else None
             | _ \<Rightarrow> None))"

text \<open>
  \<^verbatim>\<open>time.Parse(time.RFC3339Nano, value)\<close>, the layout
  \<^verbatim>\<open>2006-01-02T15:04:05.999999999Z07:00\<close> matched element by element as \<^verbatim>\<open>time.Parse\<close>
  does: four digits of year, two of month and of day, one or two of hour, two of minute and
  of second, the optional fraction, the zone, and nothing after it; the day must exist in
  the month.  The instant is that of the civil time in UTC minus the offset.
\<close>

definition parseYear :: "string \<Rightarrow> (int \<times> string) option" where
  "parseYear v =
     (if length v < 4 \<or> \<not> list_all isDigit (take 4 v) then None
      else Some (atoi (take 4 v), drop 4 v))"

definition parseDate :: "string \<Rightarrow> ((int \<times> int \<times> int) \<times> string) option" where
  "parseDate value = do {
     (year, v1) \<leftarrow> parseYear value;
     v2 \<leftarrow> skip v1 (CHR ''-'');
     (month, v3) \<leftarrow> getnum v2 True;
     if month \<le> 0 \<or> 12 < month then None else do {
     v4 \<leftarrow> skip v3 (CHR ''-'');
     (day, v5) \<leftarrow> getnum v4 True;
     Some ((year, month, day), v5) } }"

definition parseClock :: "string \<Rightarrow> ((int \<times> int \<times> int) \<times> string) option" where
  "parseClock value = do {
     (hour, v1) \<leftarrow> getnum value False;
     if hour < 0 \<or> 24 \<le> hour then None else do {
     v2 \<leftarrow> skip v1 (CHR '':'');
     (minute, v3) \<leftarrow> getnum v2 True;
     if minute < 0 \<or> 60 \<le> minute then None else do {
     v4 \<leftarrow> skip v3 (CHR '':'');
     (sec, v5) \<leftarrow> getnum v4 True;
     if sec < 0 \<or> 60 \<le> sec then None else Some ((hour, minute, sec), v5) } } }"

definition time_Parse :: "string \<Rightarrow> Time option" where
  "time_Parse value = do {
     ((year, month, day), v1) \<leftarrow> parseDate value;
     v2 \<leftarrow> skip v1 (CHR ''T'');
     ((hour, minute, sec), v3) \<leftarrow> parseClock v2;
     (offset, v4) \<leftarrow> parseZone (snd (parseFrac v3));
     if v4 \<noteq> [] then None
     else if day < 1 \<or> day > daysIn month year then None
     else Some \<lparr> unixSec = unixSec (Date year month day hour minute sec 0) - offset,
                 nsec = fst (parseFrac v3), zoneOffset = offset \<rparr> }"

definition UTC :: "Time \<Rightarrow> Time" where
  "UTC t = t \<lparr> zoneOffset := 0 \<rparr>"

definition digitChar :: "int \<Rightarrow> char" where
  "digitChar n = char_of (of_char (CHR ''0'') + n)"

function decimal :: "int \<Rightarrow> string" where
  "decimal n = (if n < 10 then [digitChar n] else decimal (n div 10) @ [digitChar (n mod 10)])"
  by pat_completeness auto
termination
  by (relation "measure nat") auto

declare decimal.simps [simp del]

text \<open>\<^verbatim>\<open>appendInt(b, x, width)\<close>: the decimal digits, zero-padded to the width, after the sign.\<close>

definition appendInt :: "int \<Rightarrow> nat \<Rightarrow> string" where
  "appendInt x width =
     (let ds = decimal \<bar>x\<bar>
      in (if x < 0 then ''-'' else []) @ replicate (width - length ds) (CHR ''0'') @ ds)"

definition appendNano :: "int \<Rightarrow> string" where
  "appendNano ns =
     (if ns = 0 then []
      else CHR ''.'' # rev (dropWhile (\<lambda>c. c = CHR ''0'') (rev (appendInt ns 9))))"

text \<open>\<^verbatim>\<open>t.Format(time.RFC3339Nano)\<close>.\<close>

definition Format :: "Time \<Rightarrow> string" where
  "Format t =
     (let abs = unixSec t + zoneOffset t;
          secs = abs mod 86400;
          (y, m, d) = civilFromDays (abs div 86400);
          zone = \<bar>zoneOffset t\<bar> div 60
      in appendInt y 4 @ ''-'' @ appendInt m 2 @ ''-'' @ appendInt d 2 @ ''T''
         @ appendInt (secs div 3600) 2 @ '':'' @ appendInt (secs div 60 mod 60) 2 @ '':''
         @ appendInt (secs mod 60) 2 @ appendNano (nsec t)
         @ (if zoneOffset t = 0 then ''Z''
            else (if zoneOffset t \<le> - 60 then ''-'' else ''+'')
                 @ appendInt (zone div 60) 2 @ '':'' @ appendInt (zone mod 60) 2))"


section \<open>Standard library: SHA-256 and hexadecimal encoding\<close>

text \<open>
  \<^verbatim>\<open>sha256.Sum256\<close>, as FIPS 180-4 defines it.  A 32-bit word is a natural number below
  \<open>2 ^ 32\<close>, and the additions are reduced modulo \<open>2 ^ 32\<close>.
\<close>

definition m32 :: "nat \<Rightarrow> nat" where
  "m32 x = x mod 4294967296"

definition rotr :: "nat \<Rightarrow> nat \<Rightarrow> nat" where
  "rotr n x = x div 2 ^ n + (x mod 2 ^ n) * 2 ^ (32 - n)"

definition Ch :: "nat \<Rightarrow> nat \<Rightarrow> nat \<Rightarrow> nat" where
  "Ch x y z = (x AND y) XOR ((4294967295 - x) AND z)"

definition Maj :: "nat \<Rightarrow> nat \<Rightarrow> nat \<Rightarrow> nat" where
  "Maj x y z = (x AND y) XOR (x AND z) XOR (y AND z)"

definition bsig0 :: "nat \<Rightarrow> nat" where
  "bsig0 x = rotr 2 x XOR rotr 13 x XOR rotr 22 x"

definition bsig1 :: "nat \<Rightarrow> nat" where
  "bsig1 x = rotr 6 x XOR rotr 11 x XOR rotr 25 x"

definition ssig0 :: "nat \<Rightarrow> nat" where
  "ssig0 x = rotr 7 x XOR rotr 18 x XOR x div 2 ^ 3"

definition ssig1 :: "nat \<Rightarrow> nat" where
  "ssig1 x = rotr 17 x XOR rotr 19 x XOR x div 2 ^ 10"

definition K256 :: "nat list" where
  "K256 = [
     1116352408, 1899447441, 3049323471, 3921009573, 961987163, 1508970993, 2453635748, 2870763221,
     3624381080, 310598401, 607225278, 1426881987, 1925078388, 2162078206, 2614888103, 3248222580,
     3835390401, 4022224774, 264347078, 604807628, 770255983, 1249150122, 1555081692, 1996064986,
     2554220882, 2821834349, 2952996808, 3210313671, 3336571891, 3584528711, 113926993, 338241895,
     666307205, 773529912, 1294757372, 1396182291, 1695183700, 1986661051, 2177026350, 2456956037,
     2730485921, 2820302411, 3259730800, 3345764771, 3516065817, 3600352804, 4094571909, 275423344,
     430227734, 506948616, 659060556, 883997877, 958139571, 1322822218, 1537002063, 1747873779,
     1955562222, 2024104815, 2227730452, 2361852424, 2428436474, 2756734187, 3204031479, 3329325298]"

definition H256 :: "nat list" where
  "H256 = [1779033703, 3144134277, 1013904242, 2773480762,
           1359893119, 2600822924, 528734635, 1541459225]"

text \<open>The message schedule, newest word first: one more word for every remaining constant.\<close>

fun schedule :: "nat list \<Rightarrow> nat list \<Rightarrow> nat list" where
  "schedule [] ws = ws"
| "schedule (k # ks) ws =
     schedule ks (m32 (ssig1 (ws ! 1) + ws ! 6 + ssig0 (ws ! 14) + ws ! 15) # ws)"

fun round256 :: "nat list \<Rightarrow> nat \<times> nat \<Rightarrow> nat list" where
  "round256 [a, b, c, d, e, f, g, h] (k, w) =
     (let t1 = m32 (h + bsig1 e + Ch e f g + k + w);
          t2 = m32 (bsig0 a + Maj a b c)
      in [m32 (t1 + t2), a, b, c, m32 (d + t1), e, f, g])"
| "round256 hs _ = hs"

definition compress :: "nat list \<Rightarrow> nat list \<Rightarrow> nat list" where
  "compress hs blk =
     map2 (\<lambda>x y. m32 (x + y)) hs
       (foldl round256 hs (zip K256 (rev (schedule (drop 16 K256) (rev blk)))))"

fun blocks :: "nat list \<Rightarrow> nat list \<Rightarrow> nat list" where
  "blocks hs ws =
     (if length ws < 16 then hs else blocks (compress hs (take 16 ws)) (drop 16 ws))"

declare blocks.simps [simp del]

fun be_words :: "nat list \<Rightarrow> nat list" where
  "be_words (a # b # c # d # rest) = (((a * 256 + b) * 256 + c) * 256 + d) # be_words rest"
| "be_words _ = []"

text \<open>
  The padding of a message of \<open>n\<close> bytes: the byte \<open>0x80\<close>, zero bytes up to 56 modulo 64,
  and the length in bits as eight bytes, most significant first.
\<close>

definition pad :: "nat \<Rightarrow> nat list" where
  "pad n =
     128 # replicate ((119 - n mod 64) mod 64) 0 @
     [8 * n div 72057594037927936 mod 256, 8 * n div 281474976710656 mod 256,
      8 * n div 1099511627776 mod 256, 8 * n div 4294967296 mod 256,
      8 * n div 16777216 mod 256, 8 * n div 65536 mod 256, 8 * n div 256 mod 256,
      8 * n mod 256]"

definition word_bytes :: "nat \<Rightarrow> string" where
  "word_bytes w =
     [char_of (w div 16777216), char_of (w div 65536), char_of (w div 256), char_of w]"

definition Sum256 :: "string \<Rightarrow> string" where
  "Sum256 data =
     concat (map word_bytes (blocks H256 (be_words (map byte data @ pad (length data)))))"

text \<open>\<^verbatim>\<open>hex.EncodeToString\<close>: two lower-case hexadecimal digits for every byte.\<close>

definition EncodeToString :: "string \<Rightarrow> string" where
  "EncodeToString src = concat (map (\<lambda>c. [hexdigit (byte c div 16), hexdigit (byte c mod 16)]) src)"

section \<open>Package hash: the preimage and the digest\<close>

definition normalizeRFC3339 :: "string \<Rightarrow> error + string" where
  "normalizeRFC3339 value =
     (case time_Parse value of
        None \<Rightarrow> Inl ParseError
      | Some parsed \<Rightarrow> Inr (Format (UTC parsed)))"

text \<open>
  \<^verbatim>\<open>addStringField\<close> and \<^verbatim>\<open>addRawField\<close> write to the builder \<^verbatim>\<open>b\<close> and clear the flag
  \<^verbatim>\<open>*first\<close>; the model passes both and returns them.
\<close>

definition addStringField :: "string \<times> bool \<Rightarrow> string \<Rightarrow> string \<Rightarrow> string \<times> bool" where
  "addStringField bf name value =
     (case bf of (b, first) \<Rightarrow>
        ((if \<not> first then b @ '','' else b) @ [DQ] @ name @ [DQ, CHR '':'']
           @ jsonMarshalString value,
         False))"

definition addRawField :: "string \<times> bool \<Rightarrow> string \<Rightarrow> string \<Rightarrow> string \<times> bool" where
  "addRawField bf name raw =
     (case bf of (b, first) \<Rightarrow>
        ((if \<not> first then b @ '','' else b) @ [DQ] @ name @ [DQ, CHR '':''] @ raw, False))"

definition writeFields :: "IntentRecord \<Rightarrow> string \<Rightarrow> string \<Rightarrow> string" where
  "writeFields record createdAt meta =
     (let s0 = (''{'', True);
          s1 = addStringField s0 ''id'' (ID record);
          s2 = addStringField s1 ''created_at'' createdAt;
          s3 = addStringField s2 ''author'' (Author record);
          s4 = addStringField s3 ''source_type'' (SourceType record);
          s5 = (if Title record \<noteq> [] then addStringField s4 ''title'' (Title record) else s4);
          s6 = addStringField s5 ''prompt'' (Prompt record);
          s7 = addStringField s6 ''response'' (Response record);
          s8 = (if length meta > 0 then addRawField s7 ''meta'' meta else s7);
          s9 = (if PrevHash record \<noteq> [] then addStringField s8 ''prev_hash'' (PrevHash record)
                else s8)
      in fst s9 @ ''}'')"

definition canonicalIntentPreimage :: "IntentRecord \<Rightarrow> error + string" where
  "canonicalIntentPreimage record =
     (if length (ID record) = 0 then Inl (Err ''id is required for hashing'')
      else if length (CreatedAt record) = 0 then Inl (Err ''created_at is required for hashing'')
      else case normalizeRFC3339 (CreatedAt record) of
        Inl err \<Rightarrow> Inl (Err ''created_at must be RFC3339'')
      | Inr createdAt \<Rightarrow>
        if length (Author record) = 0 then Inl (Err ''author is required for hashing'')
        else if length (SourceType record) = 0
          then Inl (Err ''source_type is required for hashing'')
        else if length (Prompt record) = 0 then Inl (Err ''prompt is required for hashing'')
        else if length (Response record) = 0 then Inl (Err ''response is required for hashing'')
        else if length (Meta record) > 0 then
          (case CanonicalizeMeta (Meta record) of
             Inl err \<Rightarrow> Inl err
           | Inr canonicalMeta \<Rightarrow> Inr (writeFields record createdAt canonicalMeta))
        else Inr (writeFields record createdAt []))"

definition HashIntent :: "IntentRecord \<Rightarrow> error + string" where
  "HashIntent record =
     (case canonicalIntentPreimage (Normalize record) of
        Inl err \<Rightarrow> Inl err
      | Inr preimage \<Rightarrow> Inr (EncodeToString (Sum256 preimage)))"


section \<open>Package store\<close>

subsection \<open>The metadata filter\<close>

text \<open>
  \<^verbatim>\<open>strconv.ParseFloat(s, 64)\<close> on a number literal of JSON reports an error exactly when
  the number rounds to an infinity, that is, when its magnitude is at least
  \<open>2 ^ 1024 - 2 ^ 970\<close>.  The literal is \<open>d * 10 ^ e10\<close> for the integer \<open>d\<close> of its digits.
\<close>

definition fitsFloat64 :: "string \<Rightarrow> bool" where
  "fitsFloat64 tok =
     (let body = (case tok of c # t \<Rightarrow> if c = CHR ''-'' then t else tok | [] \<Rightarrow> tok);
          ip = takeWhile isDigit body;
          r1 = dropWhile isDigit body;
          fp = (case r1 of c # t \<Rightarrow> if c = CHR ''.'' then takeWhile isDigit t else []
                | [] \<Rightarrow> []);
          r2 = (case r1 of c # t \<Rightarrow> if c = CHR ''.'' then dropWhile isDigit t else r1
                | [] \<Rightarrow> r1);
          ex = (case r2 of
                  c # d # u \<Rightarrow>
                    if d = CHR ''-'' then - atoi u
                    else if d = CHR ''+'' then atoi u
                    else atoi (d # u)
                | _ \<Rightarrow> 0);
          d = atoi (ip @ fp);
          e10 = ex - int (length fp)
      in if 0 \<le> e10 then d * 10 ^ nat e10 < 2 ^ 1024 - 2 ^ 970
         else d < (2 ^ 1024 - 2 ^ 970) * 10 ^ nat (- e10))"

text \<open>
  \<^verbatim>\<open>json.Unmarshal(raw, &payload)\<close> for a nil \<^verbatim>\<open>payload\<close> of type \<^verbatim>\<open>map[string]any\<close>.  The
  input must be one JSON value and nothing else.  An object is stored as the map of its
  members (numbers become \<^verbatim>\<open>float64\<close>, and a literal out of its range is an error; the
  filter reads the strings only, so the model keeps the literals); \<^verbatim>\<open>null\<close> leaves the
  map nil and is no error; any other value is an \<^verbatim>\<open>UnmarshalTypeError\<close>.
\<close>

definition unmarshalMap :: "string \<Rightarrow> error + (string \<times> json) list" where
  "unmarshalMap raw =
     (case parseValue raw of
        None \<Rightarrow> Inl DecodeError
      | Some (v, rest) \<Rightarrow>
          if rest \<noteq> [] then Inl DecodeError
          else (case v of
                  JNull \<Rightarrow> Inr []
                | JObject payload \<Rightarrow>
                    if list_all (\<lambda>t. case t of TNum n \<Rightarrow> fitsFloat64 n | _ \<Rightarrow> True) (lex raw)
                    then Inr payload
                    else Inl UnmarshalTypeError
                | _ \<Rightarrow> Inl UnmarshalTypeError))"

text \<open>The entries of the payload whose value is a string: the map \<^verbatim>\<open>meta\<close>.\<close>

fun stringEntries :: "(string \<times> json) list \<Rightarrow> (string \<times> string) list" where
  "stringEntries [] = []"
| "stringEntries ((key, v) # payload) =
     (case v of
        JString s \<Rightarrow> (key, s) # stringEntries payload
      | _ \<Rightarrow> stringEntries payload)"

text \<open>
  The loop over the filters, a Go map given as the list of its entries in the order of
  the iteration: the first entry that is absent from \<^verbatim>\<open>meta\<close> or differs ends it.
\<close>

fun matchAll :: "(string \<times> string) list \<Rightarrow> (string \<times> string) list \<Rightarrow> bool" where
  "matchAll meta [] = True"
| "matchAll meta ((key, want) # filters) =
     (case map_of meta key of
        None \<Rightarrow> False
      | Some have \<Rightarrow> if have \<noteq> want then False else matchAll meta filters)"

definition matchesMetaFilters :: "string \<Rightarrow> (string \<times> string) list \<Rightarrow> error + bool" where
  "matchesMetaFilters raw filters =
     (if length filters = 0 then Inr True
      else if length raw = 0 then Inr False
      else case unmarshalMap raw of
             Inl err \<Rightarrow> Inl (Wrapped ''decode meta'' err)
           | Inr payload \<Rightarrow> Inr (matchAll (stringEntries payload) filters))"

fun filterLoop ::
  "IntentRecord list \<Rightarrow> (string \<times> string) list \<Rightarrow> IntentRecord list
     \<Rightarrow> error + IntentRecord list" where
  "filterLoop [] filters filtered = Inr filtered"
| "filterLoop (intent # intents) filters filtered =
     (case matchesMetaFilters (Meta intent) filters of
        Inl err \<Rightarrow> Inl err
      | Inr match \<Rightarrow>
          filterLoop intents filters (if match then filtered @ [intent] else filtered))"

definition FilterIntentsByMeta ::
  "IntentRecord list \<Rightarrow> (string \<times> string) list \<Rightarrow> error + IntentRecord list" where
  "FilterIntentsByMeta intents filters =
     (if length filters = 0 then Inr intents
      else filterLoop intents filters [])"

subsection \<open>The table of intents\<close>





section \<open>Notions of the specification\<close>

text \<open>
  The rewriting of line endings as the specification words it: every CRLF and every lone
  CR becomes one LF, and nothing else changes.  It is compared below with
  \<^const>\<open>normalizeNewlines\<close>, which the code computes by two passes of
  \<^verbatim>\<open>strings.ReplaceAll\<close>.
\<close>

fun toLF :: "string \<Rightarrow> string" where
  "toLF [] = []"
| "toLF (c # s) =
     (if c = CR then
        (case s of
           [] \<Rightarrow> [LF]
         | d # t \<Rightarrow> if d = LF then LF # toLF t else LF # toLF s)
      else c # toLF s)"

text \<open>The record of the specification's example, and the fields it leaves out empty.\<close>

definition exampleRecord :: IntentRecord where
  "exampleRecord =
     \<lparr> ID = ''x'', CreatedAt = ''2026-02-09T10:00:00Z'', Author = ''a'', SourceType = ''cli'',
       Title = [], Prompt = ''p'', Response = ''r'', Meta = [], PrevHash = [], Hash = [] \<rparr>"

text \<open>
  Two JSON values that differ only in the order of the members of their objects, at any
  depth: arrays are compared element by element, in order; two objects with distinct keys
  are compared key by key, whatever the order in which each lists its members.
\<close>

inductive sameUpToKeyOrder :: "json \<Rightarrow> json \<Rightarrow> bool" where
  same: "sameUpToKeyOrder v v"
| arrays: "list_all2 sameUpToKeyOrder xs ys \<Longrightarrow> sameUpToKeyOrder (JArray xs) (JArray ys)"
| objects:
    "distinct (map fst xs) \<Longrightarrow> distinct (map fst ys) \<Longrightarrow> set (map fst xs) = set (map fst ys) \<Longrightarrow>
     (\<forall>key \<in> set (map fst xs).
        sameUpToKeyOrder (the (map_of xs key)) (the (map_of ys key))) \<Longrightarrow>
     sameUpToKeyOrder (JObject xs) (JObject ys)"

text \<open>
  A value all of whose objects have distinct keys, as a Go map has; the frames of the
  parser and its states that hold such values only.
\<close>

fun distinctKeys :: "json \<Rightarrow> bool" where
  "distinctKeys (JArray xs) = (\<forall>x \<in> set xs. distinctKeys x)"
| "distinctKeys (JObject m) = (distinct (map fst m) \<and> (\<forall>v \<in> set (map snd m). distinctKeys v))"
| "distinctKeys _ = True"

fun frameOK :: "frame \<Rightarrow> bool" where
  "frameOK (ArrValue xs) = distinctKeys (JArray xs)"
| "frameOK (ArrNext xs) = distinctKeys (JArray xs)"
| "frameOK (ObjKey m) = distinctKeys (JObject m)"
| "frameOK (ObjColon m k) = distinctKeys (JObject m)"
| "frameOK (ObjValue m k) = distinctKeys (JObject m)"
| "frameOK (ObjNext m) = distinctKeys (JObject m)"
| "frameOK _ = True"

fun pstateOK :: "pstate \<Rightarrow> bool" where
  "pstateOK (Done v) = distinctKeys v"
| "pstateOK (More st) = list_all frameOK st"



section \<open>Properties of the hash\<close>

lemma Normalize_fields [simp]:
  "ID (Normalize r) = ID r"
  "CreatedAt (Normalize r) = CreatedAt r"
  "Meta (Normalize r) = Meta r"
  "Hash (Normalize r) = Hash r"
  "Author (Normalize r) = normalizeNewlines (Author r)"
  "SourceType (Normalize r) = normalizeNewlines (SourceType r)"
  "Title (Normalize r) = normalizeNewlines (Title r)"
  "Prompt (Normalize r) = normalizeNewlines (Prompt r)"
  "Response (Normalize r) = normalizeNewlines (Response r)"
  "PrevHash (Normalize r) = normalizeNewlines (PrevHash r)"
  by (simp_all add: Normalize_def)

lemma Normalize_Hash_update: "Normalize (r\<lparr>Hash := h\<rparr>) = (Normalize r)\<lparr>Hash := h\<rparr>"
  by (simp add: Normalize_def)

lemma writeFields_Hash_update: "writeFields (r\<lparr>Hash := h\<rparr>) c m = writeFields r c m"
  by (simp add: writeFields_def Let_def)

lemma preimage_Hash_update:
  "canonicalIntentPreimage (r\<lparr>Hash := h\<rparr>) = canonicalIntentPreimage r"
  by (simp add: canonicalIntentPreimage_def writeFields_Hash_update split: sum.split)

text \<open>
  C5.  For every record and every string \<open>h\<close>, hashing the record with its \<open>Hash\<close> field
  set to \<open>h\<close> gives the result of hashing the record itself, digest or error: the field
  is read neither by \<open>Normalize\<close> nor by \<open>canonicalIntentPreimage\<close>, so it never enters
  the preimage.
\<close>

theorem HashIntent_ignores_Hash_field:
  "HashIntent (r\<lparr>Hash := h\<rparr>) = HashIntent r
   \<and> canonicalIntentPreimage (Normalize (r\<lparr>Hash := h\<rparr>)) = canonicalIntentPreimage (Normalize r)"
  by (simp add: HashIntent_def Normalize_Hash_update preimage_Hash_update)


subsection \<open>Line endings\<close>

lemma ReplaceAll_CR: "ReplaceAll s [CR] [LF] = map (\<lambda>c. if c = CR then LF else c) s"
  by (induction s) auto

lemma ReplaceAll_CRLF_Cons:
  "ReplaceAll (c # s) [CR, LF] [LF] =
     (if c = CR \<and> s \<noteq> [] \<and> hd s = LF then LF # ReplaceAll (tl s) [CR, LF] [LF]
      else c # ReplaceAll s [CR, LF] [LF])"
  by (cases s) auto

lemma ReplaceAll_two_passes: "ReplaceAll (ReplaceAll s [CR, LF] [LF]) [CR] [LF] = toLF s"
proof (induction s rule: toLF.induct)
  case 1
  then show ?case by simp
next
  case (2 c s)
  then show ?case
    by (cases s)
      (auto simp: ReplaceAll_CR ReplaceAll_CRLF_Cons simp del: ReplaceAll.simps(2))
qed

lemma normalizeNewlines_toLF: "normalizeNewlines s = toLF s"
  by (simp add: normalizeNewlines_def ReplaceAll_two_passes)

lemma toLF_no_CR: "CR \<notin> set (toLF s)"
  by (induction s rule: toLF.induct) (auto split: list.splits)

lemma toLF_id: "CR \<notin> set s \<Longrightarrow> toLF s = s"
  by (induction s rule: toLF.induct) (auto split: list.splits)

lemma toLF_idem: "toLF (toLF s) = toLF s"
  by (simp add: toLF_id toLF_no_CR)

lemma toLF_Nil_iff [simp]: "toLF s = [] \<longleftrightarrow> s = []"
  by (cases s) (auto split: list.splits)

text \<open>
  C4.  The free-text fields are the six that \<open>Normalize\<close> rewrites: author, source type,
  title, prompt, response and previous hash.  \<open>Normalize\<close> is a total function that
  returns a record (there is no error to return); it replaces each of the six fields by
  its \<open>toLF\<close> image, that is, with every CRLF and every lone CR turned into LF, so the
  result holds no CR and an empty field stays empty; and \<open>HashIntent\<close> gives the same
  result, digest or error, for a record and for the record with the line endings of its
  free-text fields rewritten to LF.
\<close>

theorem HashIntent_line_endings:
  "HashIntent (r\<lparr> Author := toLF (Author r), SourceType := toLF (SourceType r),
                  Title := toLF (Title r), Prompt := toLF (Prompt r),
                  Response := toLF (Response r), PrevHash := toLF (PrevHash r) \<rparr>)
     = HashIntent r
   \<and> Normalize r
     = r\<lparr> Author := toLF (Author r), SourceType := toLF (SourceType r),
          Title := toLF (Title r), Prompt := toLF (Prompt r),
          Response := toLF (Response r), PrevHash := toLF (PrevHash r) \<rparr>
   \<and> normalizeNewlines s = toLF s
   \<and> CR \<notin> set (normalizeNewlines s)
   \<and> normalizeNewlines [] = []"
  by (simp add: HashIntent_def Normalize_def normalizeNewlines_toLF toLF_idem toLF_no_CR)


subsection \<open>The digest\<close>

lemma length_round256 [simp]: "length (round256 hs kw) = length hs"
  by (cases "(hs, kw)" rule: round256.cases) (simp_all add: Let_def)

lemma length_foldl_round256 [simp]: "length (foldl round256 hs kws) = length hs"
  by (induction kws arbitrary: hs) simp_all

lemma length_compress [simp]: "length (compress hs blk) = length hs"
  by (simp add: compress_def)

lemma length_blocks [simp]: "length (blocks hs ws) = length hs"
  by (induction hs ws rule: blocks.induct) (subst blocks.simps, simp)

lemma length_Sum256: "length (Sum256 data) = 32"
  by (simp add: Sum256_def length_concat comp_def word_bytes_def H256_def sum_list_triv)

lemma length_EncodeToString: "length (EncodeToString src) = 2 * length src"
  by (simp add: EncodeToString_def length_concat comp_def sum_list_triv)

lemma hexdigit_in: "n < 16 \<Longrightarrow> hexdigit n \<in> set hexdigits"
  by (simp add: hexdigit_def hexdigits_def nth_mem del: set_simps)

lemma byte_less_256: "byte c < 256"
proof -
  have "byte c mod 256 = byte c" by simp
  then show ?thesis by (metis mod_less_divisor zero_less_numeral)
qed

lemma set_EncodeToString: "set (EncodeToString src) \<subseteq> set hexdigits"
proof -
  have "byte c div 16 < 16" "byte c mod 16 < 16" for c
    using byte_less_256[of c] by arith+
  then show ?thesis
    by (auto simp: EncodeToString_def hexdigit_in)
qed

text \<open>
  The digests of the example record and of two variants of it, computed step by step:
  the padded message as 32-bit words, the compression of each block, the digest.
\<close>

lemma replicate_numeral: "replicate (numeral k) x = x # replicate (pred_numeral k) x"
  by (simp add: numeral_eq_Suc)

lemma example_words:
  \<open>be_words (map byte ''{"id":"x","created_at":"2026-02-09T10:00:00Z","author":"a","source_type":"cli","prompt":"p","response":"r"}'' @ pad (length ''{"id":"x","created_at":"2026-02-09T10:00:00Z","author":"a","source_type":"cli","prompt":"p","response":"r"}'')) =
     [2065852772, 574235256, 573317731, 1919246708, 1701076833, 1948400162, 842019382, 758133293,
     809063473, 809119792, 976236634, 573317729, 1970563183, 1914845730, 1629629474,
     1936684402, 1667587956, 2037409058, 975332204, 1763847202, 1886547821, 1886659130,
     577774124, 577922419, 1886350963, 1696741922, 1914862976, 0, 0, 0, 0, 856]\<close>
  by (simp add: pad_def replicate_numeral)

lemma example_block1:
  "compress [1779033703, 3144134277, 1013904242, 2773480762, 1359893119, 2600822924, 528734635,
     1541459225]
     [2065852772, 574235256, 573317731, 1919246708, 1701076833, 1948400162, 842019382, 758133293,
     809063473, 809119792, 976236634, 573317729, 1970563183, 1914845730, 1629629474,
     1936684402] =
     [1157837508, 622224087, 2946698224, 1187454023, 2676482249, 795724726, 3399802639,
     1056937796]"
  by (simp add: compress_def K256_def bsig0_def bsig1_def ssig0_def ssig1_def Ch_def Maj_def rotr_def m32_def)

lemma example_block2:
  "compress [1157837508, 622224087, 2946698224, 1187454023, 2676482249, 795724726, 3399802639,
     1056937796]
     [1667587956, 2037409058, 975332204, 1763847202, 1886547821, 1886659130, 577774124,
     577922419, 1886350963, 1696741922, 1914862976, 0, 0, 0, 0, 856] =
     [1528395007, 3927963659, 4218669450, 498349986, 1109315906, 3303864057, 2455611851,
     3090785840]"
  by (simp add: compress_def K256_def bsig0_def bsig1_def ssig0_def ssig1_def Ch_def Maj_def rotr_def m32_def)

lemma example_digest:
  \<open>EncodeToString (Sum256 ''{"id":"x","created_at":"2026-02-09T10:00:00Z","author":"a","source_type":"cli","prompt":"p","response":"r"}'') =
     ''5b1974ffea1ff80bfb73c98a1db437a2421ed142c4ecf6f9925da9cbb839a630''\<close>
  by (simp only: Sum256_def example_words)
    (simp add: EncodeToString_def blocks.simps H256_def example_block1 example_block2
       word_bytes_def hexdigit_def hexdigits_def)

lemma meta1_words:
  \<open>be_words (map byte ''{"id":"x","created_at":"2026-02-09T10:00:00Z","author":"a","source_type":"cli","prompt":"p","response":"r","meta":{"n":1}}'' @ pad (length ''{"id":"x","created_at":"2026-02-09T10:00:00Z","author":"a","source_type":"cli","prompt":"p","response":"r","meta":{"n":1}}'')) =
     [2065852772, 574235256, 573317731, 1919246708, 1701076833, 1948400162, 842019382, 758133293,
     809063473, 809119792, 976236634, 573317729, 1970563183, 1914845730, 1629629474,
     1936684402, 1667587956, 2037409058, 975332204, 1763847202, 1886547821, 1886659130,
     577774124, 577922419, 1886350963, 1696741922, 1914842146, 1835365473, 574257954,
     1847736881, 2105376768, 0, 0, 0, 0, 0, 0, 0, 0, 0, 0, 0, 0, 0, 0, 0, 0, 976]\<close>
  by (simp add: pad_def replicate_numeral)

lemma meta1_block2:
  "compress [1157837508, 622224087, 2946698224, 1187454023, 2676482249, 795724726, 3399802639,
     1056937796]
     [1667587956, 2037409058, 975332204, 1763847202, 1886547821, 1886659130, 577774124,
     577922419, 1886350963, 1696741922, 1914842146, 1835365473, 574257954, 1847736881,
     2105376768, 0] =
     [3199829313, 3257725416, 3458901067, 4121380547, 574221440, 3185417268, 1421191594,
     659413567]"
  by (simp add: compress_def K256_def bsig0_def bsig1_def ssig0_def ssig1_def Ch_def Maj_def rotr_def m32_def)

lemma meta1_block3:
  "compress [3199829313, 3257725416, 3458901067, 4121380547, 574221440, 3185417268, 1421191594,
     659413567]
     [0, 0, 0, 0, 0, 0, 0, 0, 0, 0, 0, 0, 0, 0, 0, 976] =
     [497944622, 2709708505, 3284930670, 926807284, 3085402333, 2028569668, 2363525361,
     1630114057]"
  by (simp add: compress_def K256_def bsig0_def bsig1_def ssig0_def ssig1_def Ch_def Maj_def rotr_def m32_def)

lemma meta1_digest:
  \<open>EncodeToString (Sum256 ''{"id":"x","created_at":"2026-02-09T10:00:00Z","author":"a","source_type":"cli","prompt":"p","response":"r","meta":{"n":1}}'') =
     ''1dae082ea182ded9c3cc106e373df4f4b7e780dd78e984448ce088f161299109''\<close>
  by (simp only: Sum256_def meta1_words)
    (simp add: EncodeToString_def blocks.simps H256_def example_block1 meta1_block2 meta1_block3
       word_bytes_def hexdigit_def hexdigits_def)

lemma meta10_words:
  \<open>be_words (map byte ''{"id":"x","created_at":"2026-02-09T10:00:00Z","author":"a","source_type":"cli","prompt":"p","response":"r","meta":{"n":1.0}}'' @ pad (length ''{"id":"x","created_at":"2026-02-09T10:00:00Z","author":"a","source_type":"cli","prompt":"p","response":"r","meta":{"n":1.0}}'')) =
     [2065852772, 574235256, 573317731, 1919246708, 1701076833, 1948400162, 842019382, 758133293,
     809063473, 809119792, 976236634, 573317729, 1970563183, 1914845730, 1629629474,
     1936684402, 1667587956, 2037409058, 975332204, 1763847202, 1886547821, 1886659130,
     577774124, 577922419, 1886350963, 1696741922, 1914842146, 1835365473, 574257954,
     1847736881, 774929789, 2147483648, 0, 0, 0, 0, 0, 0, 0, 0, 0, 0, 0, 0, 0, 0, 0, 992]\<close>
  by (simp add: pad_def replicate_numeral)

lemma meta10_block2:
  "compress [1157837508, 622224087, 2946698224, 1187454023, 2676482249, 795724726, 3399802639,
     1056937796]
     [1667587956, 2037409058, 975332204, 1763847202, 1886547821, 1886659130, 577774124,
     577922419, 1886350963, 1696741922, 1914842146, 1835365473, 574257954, 1847736881,
     774929789, 2147483648] =
     [4238694841, 1809493096, 3664020539, 2360805326, 4220687014, 533332131, 399394292,
     194487733]"
  by (simp add: compress_def K256_def bsig0_def bsig1_def ssig0_def ssig1_def Ch_def Maj_def rotr_def m32_def)

lemma meta10_block3:
  "compress [4238694841, 1809493096, 3664020539, 2360805326, 4220687014, 533332131, 399394292,
     194487733]
     [0, 0, 0, 0, 0, 0, 0, 0, 0, 0, 0, 0, 0, 0, 0, 992] =
     [581388649, 2470896154, 3224345422, 2587113448, 1438705617, 1626262375, 1776785248,
     1936758588]"
  by (simp add: compress_def K256_def bsig0_def bsig1_def ssig0_def ssig1_def Ch_def Maj_def rotr_def m32_def)

lemma meta10_digest:
  \<open>EncodeToString (Sum256 ''{"id":"x","created_at":"2026-02-09T10:00:00Z","author":"a","source_type":"cli","prompt":"p","response":"r","meta":{"n":1.0}}'') =
     ''22a749699346e21ac02f9b4e9a3437e855c0e7d160eecb6769e797607370973c''\<close>
  by (simp only: Sum256_def meta10_words)
    (simp add: EncodeToString_def blocks.simps H256_def example_block1 meta10_block2 meta10_block3
       word_bytes_def hexdigit_def hexdigits_def)


lemma example_preimage:
  \<open>canonicalIntentPreimage (Normalize exampleRecord) =
     Inr ''{"id":"x","created_at":"2026-02-09T10:00:00Z","author":"a","source_type":"cli","prompt":"p","response":"r"}''\<close>
  by code_simp

lemma example_hash:
  "HashIntent exampleRecord =
     Inr ''5b1974ffea1ff80bfb73c98a1db437a2421ed142c4ecf6f9925da9cbb839a630''"
  by (simp only: HashIntent_def example_preimage example_digest sum.case)

text \<open>
  C1.  \<open>HashIntent\<close> is a function of the record: whenever it returns a digest \<open>h\<close>,
  every other call on the same record returns \<open>h\<close>.  The digest is the hexadecimal
  encoding of the SHA-256 sum of the preimage of the normalized record: 64 characters,
  each one of \<open>0123456789abcdef\<close>.
\<close>

theorem HashIntent_deterministic_hex:
  assumes "HashIntent r = Inr h"
  shows "(\<forall>h'. HashIntent r = Inr h' \<longrightarrow> h' = h)
     \<and> length h = 64
     \<and> set h \<subseteq> set ''0123456789abcdef''
     \<and> (\<exists>p. canonicalIntentPreimage (Normalize r) = Inr p \<and> h = EncodeToString (Sum256 p))"
proof -
  from assms obtain p where p: "canonicalIntentPreimage (Normalize r) = Inr p"
    and h: "h = EncodeToString (Sum256 p)"
    by (auto simp: HashIntent_def split: sum.splits)
  have "length h = 64"
    by (simp add: h length_EncodeToString length_Sum256)
  moreover have "set h \<subseteq> set ''0123456789abcdef''"
    using set_EncodeToString[of "Sum256 p"] by (simp only: h hexdigits_def)
  moreover have "\<forall>h'. HashIntent r = Inr h' \<longrightarrow> h' = h"
    using assms by simp
  ultimately show ?thesis
    using p h by blast
qed

theorem HashIntent_deterministic_hex_witness:
  "HashIntent exampleRecord = Inr ''5b1974ffea1ff80bfb73c98a1db437a2421ed142c4ecf6f9925da9cbb839a630''
   \<and> length ''5b1974ffea1ff80bfb73c98a1db437a2421ed142c4ecf6f9925da9cbb839a630'' = 64
   \<and> set ''5b1974ffea1ff80bfb73c98a1db437a2421ed142c4ecf6f9925da9cbb839a630''
        \<subseteq> set ''0123456789abcdef''"
  using example_hash HashIntent_deterministic_hex[OF example_hash] by blast


subsection \<open>Validation\<close>

lemma normalizeNewlines_Nil_iff [simp]: "normalizeNewlines s = [] \<longleftrightarrow> s = []"
  by (simp add: normalizeNewlines_toLF)

lemma time_Parse_Nil [simp]: "time_Parse [] = None"
  by (simp add: time_Parse_def parseDate_def parseYear_def)

lemma example_time:
  "time_Parse ''2026-02-09T10:00:00Z'' = Some \<lparr>unixSec = 1770631200, nsec = 0, zoneOffset = 0\<rparr>"
  by code_simp

lemma not_a_time: "time_Parse ''not-a-time'' = None"
  by code_simp

text \<open>
  C6, as the code has it.  The checks run in the order id, createdAt (present, then
  RFC3339), author, sourceType, prompt, response, and the first one that fails decides the
  error.  So an empty mandatory field is named by the error whenever every check before
  its own passes; no digest is returned then.
\<close>

theorem HashIntent_missing_field:
  "(ID r = [] \<longrightarrow> HashIntent r = Inl (Err ''id is required for hashing''))
   \<and> (ID r \<noteq> [] \<longrightarrow> CreatedAt r = [] \<longrightarrow>
        HashIntent r = Inl (Err ''created_at is required for hashing''))
   \<and> (ID r \<noteq> [] \<longrightarrow> time_Parse (CreatedAt r) \<noteq> None \<longrightarrow> Author r = [] \<longrightarrow>
        HashIntent r = Inl (Err ''author is required for hashing''))
   \<and> (ID r \<noteq> [] \<longrightarrow> time_Parse (CreatedAt r) \<noteq> None \<longrightarrow> Author r \<noteq> [] \<longrightarrow>
        SourceType r = [] \<longrightarrow>
        HashIntent r = Inl (Err ''source_type is required for hashing''))
   \<and> (ID r \<noteq> [] \<longrightarrow> time_Parse (CreatedAt r) \<noteq> None \<longrightarrow> Author r \<noteq> [] \<longrightarrow>
        SourceType r \<noteq> [] \<longrightarrow> Prompt r = [] \<longrightarrow>
        HashIntent r = Inl (Err ''prompt is required for hashing''))
   \<and> (ID r \<noteq> [] \<longrightarrow> time_Parse (CreatedAt r) \<noteq> None \<longrightarrow> Author r \<noteq> [] \<longrightarrow>
        SourceType r \<noteq> [] \<longrightarrow> Prompt r \<noteq> [] \<longrightarrow> Response r = [] \<longrightarrow>
        HashIntent r = Inl (Err ''response is required for hashing''))"
  by (auto simp: HashIntent_def canonicalIntentPreimage_def normalizeRFC3339_def)

text \<open>The example record with each mandatory field left out in turn.\<close>

theorem HashIntent_missing_field_witness:
  "HashIntent (exampleRecord\<lparr>ID := []\<rparr>) = Inl (Err ''id is required for hashing'')
   \<and> HashIntent (exampleRecord\<lparr>CreatedAt := []\<rparr>)
       = Inl (Err ''created_at is required for hashing'')
   \<and> HashIntent (exampleRecord\<lparr>Author := []\<rparr>)
       = Inl (Err ''author is required for hashing'')
   \<and> HashIntent (exampleRecord\<lparr>SourceType := []\<rparr>)
       = Inl (Err ''source_type is required for hashing'')
   \<and> HashIntent (exampleRecord\<lparr>Prompt := []\<rparr>)
       = Inl (Err ''prompt is required for hashing'')
   \<and> HashIntent (exampleRecord\<lparr>Response := []\<rparr>)
       = Inl (Err ''response is required for hashing'')"
  using HashIntent_missing_field[of "exampleRecord\<lparr>ID := []\<rparr>"]
    HashIntent_missing_field[of "exampleRecord\<lparr>CreatedAt := []\<rparr>"]
    HashIntent_missing_field[of "exampleRecord\<lparr>Author := []\<rparr>"]
    HashIntent_missing_field[of "exampleRecord\<lparr>SourceType := []\<rparr>"]
    HashIntent_missing_field[of "exampleRecord\<lparr>Prompt := []\<rparr>"]
    HashIntent_missing_field[of "exampleRecord\<lparr>Response := []\<rparr>"]
  by (simp add: exampleRecord_def example_time)

text \<open>
  C6 as stated fails: on a record whose only empty mandatory field is the author, but
  whose createdAt is not a timestamp, the error is the one of createdAt, which is checked
  first, and not the one that names the author.
\<close>

theorem HashIntent_missing_field_counterexample:
  "Author (exampleRecord\<lparr>CreatedAt := ''not-a-time'', Author := []\<rparr>) = []
   \<and> HashIntent (exampleRecord\<lparr>CreatedAt := ''not-a-time'', Author := []\<rparr>)
       = Inl (Err ''created_at must be RFC3339'')
   \<and> HashIntent (exampleRecord\<lparr>CreatedAt := ''not-a-time'', Author := []\<rparr>)
       \<noteq> Inl (Err ''author is required for hashing'')"
  by (simp add: HashIntent_def canonicalIntentPreimage_def normalizeRFC3339_def
      exampleRecord_def not_a_time)


subsection \<open>Timestamps\<close>

lemma writeFields_CreatedAt_update:
  "writeFields (r\<lparr>CreatedAt := a\<rparr>) c m = writeFields r c m"
  by (simp add: writeFields_def Let_def)

lemma Normalize_CreatedAt_update:
  "Normalize (r\<lparr>CreatedAt := a\<rparr>) = (Normalize r)\<lparr>CreatedAt := a\<rparr>"
  by (simp add: Normalize_def)

lemma UTC_instant: "UTC t = \<lparr>unixSec = unixSec t, nsec = nsec t, zoneOffset = 0\<rparr>"
  by (cases t) (simp add: UTC_def)

lemma Format_UTC_Z: "\<exists>body. Format (UTC t) = body @ ''Z''"
  by (simp add: UTC_instant Format_def Let_def split: prod.split)

lemma offset_time:
  "time_Parse ''2026-02-09T12:00:00.500+02:00'' =
     Some \<lparr>unixSec = 1770631200, nsec = 500000000, zoneOffset = 7200\<rparr>"
  by code_simp

lemma frac_time:
  "time_Parse ''2026-02-09T10:00:00.5Z'' =
     Some \<lparr>unixSec = 1770631200, nsec = 500000000, zoneOffset = 0\<rparr>"
  by code_simp

lemma frac_format:
  "Format \<lparr>unixSec = 1770631200, nsec = 500000000, zoneOffset = 0\<rparr> = ''2026-02-09T10:00:00.5Z''"
  by code_simp

text \<open>
  C7.  The createdAt that enters the preimage is the instant of the parsed timestamp,
  formatted in UTC (the text ends in \<open>Z\<close>) with the fraction trimmed of its trailing
  zeros: it depends on the instant alone.  So two records that differ only in createdAt
  strings that parse to the same instant, whatever their offsets and their fraction digits,
  get the same result.  The timestamp is re-parsed after the presence of the id and of
  createdAt has been checked (step 2 of the contract, after step 1): a record that has
  both and whose createdAt does not parse fails with \<open>created_at must be RFC3339\<close>, and no
  record whose createdAt does not parse is ever hashed.
\<close>

theorem HashIntent_timestamp:
  "(time_Parse a = Some ta \<longrightarrow> time_Parse b = Some tb \<longrightarrow>
      unixSec ta = unixSec tb \<longrightarrow> nsec ta = nsec tb \<longrightarrow>
      HashIntent (r\<lparr>CreatedAt := a\<rparr>) = HashIntent (r\<lparr>CreatedAt := b\<rparr>))
   \<and> (time_Parse a = Some ta \<longrightarrow>
        normalizeRFC3339 a
          = Inr (Format \<lparr>unixSec = unixSec ta, nsec = nsec ta, zoneOffset = 0\<rparr>)
        \<and> (\<exists>body. normalizeRFC3339 a = Inr (body @ ''Z'')))
   \<and> (time_Parse (CreatedAt r) = None \<longrightarrow> (\<exists>e. HashIntent r = Inl e))
   \<and> (time_Parse (CreatedAt r) = None \<longrightarrow> ID r \<noteq> [] \<longrightarrow> CreatedAt r \<noteq> [] \<longrightarrow>
        HashIntent r = Inl (Err ''created_at must be RFC3339''))"
proof -
  have norm:
    "normalizeRFC3339 v = Inr (Format \<lparr>unixSec = unixSec t, nsec = nsec t, zoneOffset = 0\<rparr>)"
    if "time_Parse v = Some t" for v t
    using that by (simp add: normalizeRFC3339_def UTC_instant)
  have same: "HashIntent (r\<lparr>CreatedAt := a\<rparr>) = HashIntent (r\<lparr>CreatedAt := b\<rparr>)"
    if a: "time_Parse a = Some ta" and b: "time_Parse b = Some tb"
      and eq: "unixSec ta = unixSec tb" "nsec ta = nsec tb"
  proof -
    from a b have ne: "a \<noteq> []" "b \<noteq> []" by auto
    show ?thesis
      using ne eq
      by (simp add: HashIntent_def canonicalIntentPreimage_def Normalize_CreatedAt_update
          norm[OF a] norm[OF b] writeFields_CreatedAt_update split: sum.split)
  qed
  have utc: "\<exists>body. normalizeRFC3339 a = Inr (body @ ''Z'')" if "time_Parse a = Some ta"
    using that Format_UTC_Z[of ta] by (simp add: normalizeRFC3339_def)
  have bad: "HashIntent r = Inl (Err ''created_at must be RFC3339'')"
    if "time_Parse (CreatedAt r) = None" "ID r \<noteq> []" "CreatedAt r \<noteq> []"
    using that by (simp add: HashIntent_def canonicalIntentPreimage_def normalizeRFC3339_def)
  have fails: "\<exists>e. HashIntent r = Inl e" if "time_Parse (CreatedAt r) = None"
    using that by (simp add: HashIntent_def canonicalIntentPreimage_def normalizeRFC3339_def)
  show ?thesis
    using same utc bad fails norm by blast
qed

text \<open>
  Noon at +02:00 with three fraction digits and ten o'clock in UTC with one are the same
  instant; \<open>not-a-time\<close> is no timestamp.
\<close>

theorem HashIntent_timestamp_witness:
  "HashIntent (exampleRecord\<lparr>CreatedAt := ''2026-02-09T12:00:00.500+02:00''\<rparr>)
     = HashIntent (exampleRecord\<lparr>CreatedAt := ''2026-02-09T10:00:00.5Z''\<rparr>)
   \<and> normalizeRFC3339 ''2026-02-09T12:00:00.500+02:00'' = Inr ''2026-02-09T10:00:00.5Z''
   \<and> normalizeRFC3339 ''2026-02-09T10:00:00.5Z'' = Inr ''2026-02-09T10:00:00.5Z''
   \<and> HashIntent (exampleRecord\<lparr>CreatedAt := ''not-a-time''\<rparr>)
       = Inl (Err ''created_at must be RFC3339'')"
  using
    HashIntent_timestamp[of "''2026-02-09T12:00:00.500+02:00''" _
      "''2026-02-09T10:00:00.5Z''" _ exampleRecord]
    HashIntent_timestamp[of "''2026-02-09T10:00:00.5Z''" _ "''2026-02-09T10:00:00.5Z''" _
      "exampleRecord\<lparr>CreatedAt := ''not-a-time''\<rparr>"]
  by (simp add: offset_time frac_time frac_format not_a_time exampleRecord_def)

subsection \<open>Absent metadata\<close>

text \<open>
  C10.  \<open>CanonicalizeMeta\<close> returns \<^verbatim>\<open>nil, nil\<close> for empty input: the decoder, and with it
  the malformed-input branch, is not reached.  So a record whose metadata are unset never
  fails on account of its metadata: it is hashed whenever its six mandatory fields are
  present and its createdAt parses, and when \<open>HashIntent\<close> does fail on such a record the
  error is one of the seven of the field checks, never one of the decoder.
\<close>

theorem HashIntent_unset_meta:
  "CanonicalizeMeta [] = Inr []
   \<and> (Meta r = [] \<longrightarrow> ID r \<noteq> [] \<longrightarrow> time_Parse (CreatedAt r) \<noteq> None \<longrightarrow>
        Author r \<noteq> [] \<longrightarrow> SourceType r \<noteq> [] \<longrightarrow> Prompt r \<noteq> [] \<longrightarrow> Response r \<noteq> [] \<longrightarrow>
        (\<exists>h. HashIntent r = Inr h))
   \<and> (Meta r = [] \<longrightarrow> HashIntent r = Inl e \<longrightarrow>
        e \<in> {Err ''id is required for hashing'', Err ''created_at is required for hashing'',
             Err ''created_at must be RFC3339'', Err ''author is required for hashing'',
             Err ''source_type is required for hashing'', Err ''prompt is required for hashing'',
             Err ''response is required for hashing''})"
  by (auto simp: CanonicalizeMeta_def HashIntent_def canonicalIntentPreimage_def
      normalizeRFC3339_def split: if_splits option.splits sum.splits)

theorem HashIntent_unset_meta_witness:
  "CanonicalizeMeta [] = Inr [] \<and> Meta exampleRecord = []
   \<and> (\<exists>h. HashIntent exampleRecord = Inr h)
   \<and> HashIntent (exampleRecord\<lparr>ID := []\<rparr>) = Inl (Err ''id is required for hashing'')"
  using HashIntent_unset_meta[of exampleRecord]
    HashIntent_unset_meta[of "exampleRecord\<lparr>ID := []\<rparr>" "Err ''id is required for hashing''"]
  by (simp add: exampleRecord_def example_time HashIntent_def canonicalIntentPreimage_def)


subsection \<open>Numbers in the metadata\<close>

lemma writeFields_Meta_update: "writeFields (r\<lparr>Meta := a\<rparr>) c m = writeFields r c m"
  by (simp add: writeFields_def Let_def)

lemma Normalize_Meta_update: "Normalize (r\<lparr>Meta := a\<rparr>) = (Normalize r)\<lparr>Meta := a\<rparr>"
  by (simp add: Normalize_def)

lemma writeFields_inject:
  "m1 \<noteq> [] \<Longrightarrow> m2 \<noteq> [] \<Longrightarrow> writeFields r c m1 = writeFields r c m2 \<longleftrightarrow> m1 = m2"
  by (simp add: writeFields_def Let_def addStringField_def addRawField_def)

lemma decodeJSON_Nil: "decodeJSON [] = Inl DecodeError"
  by (simp add: decodeJSON_def parseValue_def)

lemma meta1_decode: \<open>decodeJSON ''{"n":1}'' = Inr (JObject [(''n'', JNumber ''1'')])\<close>
  by code_simp

lemma meta10_decode: \<open>decodeJSON ''{"n":1.0}'' = Inr (JObject [(''n'', JNumber ''1.0'')])\<close>
  by code_simp

lemma meta1_preimage:
  \<open>canonicalIntentPreimage (Normalize (exampleRecord\<lparr>Meta := ''{"n":1}''\<rparr>)) =
     Inr ''{"id":"x","created_at":"2026-02-09T10:00:00Z","author":"a","source_type":"cli","prompt":"p","response":"r","meta":{"n":1}}''\<close>
  by code_simp

lemma meta10_preimage:
  \<open>canonicalIntentPreimage (Normalize (exampleRecord\<lparr>Meta := ''{"n":1.0}''\<rparr>)) =
     Inr ''{"id":"x","created_at":"2026-02-09T10:00:00Z","author":"a","source_type":"cli","prompt":"p","response":"r","meta":{"n":1.0}}''\<close>
  by code_simp

text \<open>
  C3, as the code has it.  The decoder keeps every number of the metadata as the text of
  its literal (\<^verbatim>\<open>UseNumber\<close>) and \<^verbatim>\<open>writeJSONValue\<close> writes that text back unchanged.
  For two records that are identical except for their metadata, and are both hashed, the
  preimages are equal exactly when the canonical texts of the two metadata are equal (and
  then so are the digests); the canonical text of \<open>{k: t}\<close> holds the token \<open>t\<close> as it was
  spelled.
\<close>

theorem HashIntent_number_tokens:
  "(decodeJSON raw1 = Inr (JObject m1) \<longrightarrow> decodeJSON raw2 = Inr (JObject m2) \<longrightarrow>
     canonicalIntentPreimage (Normalize (r\<lparr>Meta := raw1\<rparr>)) = Inr p1 \<longrightarrow>
     canonicalIntentPreimage (Normalize (r\<lparr>Meta := raw2\<rparr>)) = Inr p2 \<longrightarrow>
     (p1 = p2 \<longleftrightarrow> writeJSONObject m1 = writeJSONObject m2)
     \<and> (writeJSONObject m1 = writeJSONObject m2 \<longrightarrow>
          HashIntent (r\<lparr>Meta := raw1\<rparr>) = HashIntent (r\<lparr>Meta := raw2\<rparr>)))
   \<and> writeJSONValue (JNumber t) = t
   \<and> writeJSONObject [(k, JNumber t)] = ''{'' @ jsonMarshalString k @ '':'' @ t @ ''}''"
proof -
  have "(p1 = p2 \<longleftrightarrow> writeJSONObject m1 = writeJSONObject m2)
      \<and> (writeJSONObject m1 = writeJSONObject m2 \<longrightarrow>
          HashIntent (r\<lparr>Meta := raw1\<rparr>) = HashIntent (r\<lparr>Meta := raw2\<rparr>))"
    if d1: "decodeJSON raw1 = Inr (JObject m1)" and d2: "decodeJSON raw2 = Inr (JObject m2)"
      and p1: "canonicalIntentPreimage (Normalize (r\<lparr>Meta := raw1\<rparr>)) = Inr p1"
      and p2: "canonicalIntentPreimage (Normalize (r\<lparr>Meta := raw2\<rparr>)) = Inr p2"
  proof -
    from d1 d2 have ne: "raw1 \<noteq> []" "raw2 \<noteq> []"
      using decodeJSON_Nil by auto
    from p1 p2 ne d1 d2 obtain c where
      "p1 = writeFields (Normalize r) c (writeJSONObject m1)"
      "p2 = writeFields (Normalize r) c (writeJSONObject m2)"
      by (auto simp: canonicalIntentPreimage_def Normalize_Meta_update writeFields_Meta_update
          CanonicalizeMeta_def split: if_splits sum.splits)
    then have iff: "p1 = p2 \<longleftrightarrow> writeJSONObject m1 = writeJSONObject m2"
      using writeFields_inject[of "writeJSONObject m1" "writeJSONObject m2" "Normalize r" c]
      by simp
    have "HashIntent (r\<lparr>Meta := raw1\<rparr>) = HashIntent (r\<lparr>Meta := raw2\<rparr>)" if "p1 = p2"
      using that p1 p2 by (simp only: HashIntent_def)
    with iff show ?thesis by blast
  qed
  then show ?thesis by simp
qed

theorem HashIntent_number_tokens_witness:
  \<open>decodeJSON ''{"n":1}'' = Inr (JObject [(''n'', JNumber ''1'')])
   \<and> decodeJSON ''{"n":1.0}'' = Inr (JObject [(''n'', JNumber ''1.0'')])
   \<and> writeJSONObject [(''n'', JNumber ''1'')] = ''{"n":1}''
   \<and> writeJSONObject [(''n'', JNumber ''1.0'')] = ''{"n":1.0}''
   \<and> canonicalIntentPreimage (Normalize (exampleRecord\<lparr>Meta := ''{"n":1}''\<rparr>))
       \<noteq> canonicalIntentPreimage (Normalize (exampleRecord\<lparr>Meta := ''{"n":1.0}''\<rparr>))\<close>
  using HashIntent_number_tokens[of \<open>''{"n":1}''\<close> "[(''n'', JNumber ''1'')]"
      \<open>''{"n":1.0}''\<close> "[(''n'', JNumber ''1.0'')]" exampleRecord _ _ "''1''" "''n''"]
    meta1_decode meta10_decode meta1_preimage meta10_preimage
  by (simp add: jsonMarshalString_def htmlSafe_def)

text \<open>
  C3 as stated fails: \<open>1\<close> and \<open>1.0\<close> are the same number, and the two records that
  differ only in this spelling get different digests.
\<close>

theorem HashIntent_number_tokens_counterexample:
  \<open>HashIntent (exampleRecord\<lparr>Meta := ''{"n":1}''\<rparr>) = Inr ''1dae082ea182ded9c3cc106e373df4f4b7e780dd78e984448ce088f161299109''
   \<and> HashIntent (exampleRecord\<lparr>Meta := ''{"n":1.0}''\<rparr>) = Inr ''22a749699346e21ac02f9b4e9a3437e855c0e7d160eecb6769e797607370973c''
   \<and> HashIntent (exampleRecord\<lparr>Meta := ''{"n":1}''\<rparr>)
       \<noteq> HashIntent (exampleRecord\<lparr>Meta := ''{"n":1.0}''\<rparr>)\<close>
  by (simp add: HashIntent_def meta1_preimage meta10_preimage meta1_digest meta10_digest)


subsection \<open>Key order in the metadata\<close>

lemma sort_keys_eq:
  "distinct (xs :: string list) \<Longrightarrow> distinct ys \<Longrightarrow> set xs = set ys \<Longrightarrow> sort xs = sort ys"
  by (rule sorted_distinct_set_unique) simp_all

lemma writeJSONValue_key_order:
  "sameUpToKeyOrder a b \<Longrightarrow> writeJSONValue a = writeJSONValue b"
proof (induction rule: sameUpToKeyOrder.induct)
  case (same v)
  show ?case by simp
next
  case (arrays xs ys)
  then have "map writeJSONValue xs = map writeJSONValue ys"
    by (induction xs ys rule: list_all2_induct) simp_all
  then show ?case by simp
next
  case (objects xs ys)
  have keys: "sort (map fst xs) = sort (map fst ys)"
    using objects.hyps(1-3) by (rule sort_keys_eq)
  have vals: "map (\<lambda>key. jsonMarshalString key @ '':'' @ writeJSONValue (the (map_of xs key)))
          (sort (map fst ys))
      = map (\<lambda>key. jsonMarshalString key @ '':'' @ writeJSONValue (the (map_of ys key)))
          (sort (map fst ys))"
  proof (rule map_cong[OF refl])
    fix key assume "key \<in> set (sort (map fst ys))"
    then have "key \<in> set (map fst xs)"
      using objects.hyps(3) by simp
    with objects.IH have "writeJSONValue (the (map_of xs key)) = writeJSONValue (the (map_of ys key))"
      by blast
    then show "jsonMarshalString key @ '':'' @ writeJSONValue (the (map_of xs key))
        = jsonMarshalString key @ '':'' @ writeJSONValue (the (map_of ys key))"
      by simp
  qed
  have "writeJSONObject xs = writeJSONObject ys"
    by (simp only: writeJSONObject.simps Let_def keys vals)
  then show ?case by simp
qed

lemma sameUpToKeyOrder_object:
  "sameUpToKeyOrder a b \<Longrightarrow> (\<exists>m. a = JObject m) \<longleftrightarrow> (\<exists>m. b = JObject m)"
  by (induction rule: sameUpToKeyOrder.induct) auto

lemma CanonicalizeMeta_decoded:
  "decodeJSON raw = Inr v \<Longrightarrow>
   CanonicalizeMeta raw = (case v of JObject obj \<Rightarrow> Inr (writeJSONValue v)
                             | _ \<Rightarrow> Inl (Err ''meta must be a JSON object''))"
  using decodeJSON_Nil by (cases "raw = []") (auto simp: CanonicalizeMeta_def split: json.splits)

text \<open>
  Every permutation of the members of an object is related to it, and the values that the
  decoder returns have distinct keys in all their objects (a repeated key of the input
  keeps its last value): on decoded metadata, \<^const>\<open>sameUpToKeyOrder\<close> is the reordering of
  keys and nothing less.
\<close>

lemma sameUpToKeyOrder_permutation:
  assumes "distinct (map fst xs)" "distinct (map fst ys)" "set xs = set ys"
  shows "sameUpToKeyOrder (JObject xs) (JObject ys)"
proof -
  from assms have "map_of xs = map_of ys"
    by (simp add: map_of_inject_set)
  moreover from assms(3) have "set (map fst xs) = set (map fst ys)"
    by simp
  ultimately show ?thesis
    using assms(1,2) by (auto intro!: sameUpToKeyOrder.objects sameUpToKeyOrder.same)
qed

lemma in_set_update:
  "x \<in> set (AList.update k v m) \<Longrightarrow> snd x = v \<or> x \<in> set m"
  by (induction m) (auto split: if_splits)

lemma distinctKeys_update:
  "distinctKeys (JObject m) \<Longrightarrow> distinctKeys v \<Longrightarrow> distinctKeys (JObject (AList.update k v m))"
  by (auto simp: distinct_update dest: in_set_update)

lemma distinctKeys_empty: "distinctKeys (JObject [])"
  by simp

lemma endValue_OK:
  "endValue v st = Some ps \<Longrightarrow> distinctKeys v \<Longrightarrow> list_all frameOK st \<Longrightarrow> pstateOK ps"
  by (induction v st rule: endValue.induct)
     (auto simp del: distinctKeys.simps(2) simp: distinctKeys_update)

lemma beginValue_OK:
  "beginValue t st = Some ps \<Longrightarrow> list_all frameOK st \<Longrightarrow> pstateOK ps"
  by (cases t) (auto dest: endValue_OK split: if_splits)

lemma step_OK:
  "step st t = Some ps \<Longrightarrow> list_all frameOK st \<Longrightarrow> pstateOK ps"
  by (induction st t rule: step.induct)
     (auto dest: endValue_OK beginValue_OK split: if_splits token.splits
           simp del: distinctKeys.simps(2) simp: distinctKeys_empty)

lemma run_OK:
  "run st ts = Some (v, rest) \<Longrightarrow> list_all frameOK st \<Longrightarrow> distinctKeys v"
proof (induction ts arbitrary: st)
  case Nil
  then show ?case by simp
next
  case (Cons t ts)
  then show ?case
    using step_OK[of st t]
    by (auto split: option.splits pstate.splits)
qed

lemma decodeJSON_distinctKeys: "decodeJSON raw = Inr v \<Longrightarrow> distinctKeys v"
  using run_OK[of "[]" "lex raw" v]
  by (auto simp: decodeJSON_def parseValue_def split: option.splits if_splits)

lemma reordered_decode1:
  \<open>decodeJSON ''{"b":1,"a":{"d":[2,{"y":0,"x":1}],"c":3}}'' =
   Inr (JObject [(''b'', JNumber ''1''),
     (''a'', JObject [(''d'', JArray [JNumber ''2'',
                                     JObject [(''y'', JNumber ''0''), (''x'', JNumber ''1'')]]),
                     (''c'', JNumber ''3'')])])\<close>
  by code_simp

lemma reordered_decode2:
  \<open>decodeJSON ''{"a":{"c":3,"d":[2,{"x":1,"y":0}]},"b":1}'' =
   Inr (JObject [(''a'', JObject [(''c'', JNumber ''3''),
        (''d'', JArray [JNumber ''2'',
                        JObject [(''x'', JNumber ''1''), (''y'', JNumber ''0'')]])]),
      (''b'', JNumber ''1'')])\<close>
  by code_simp

lemma reordered_canonical:
  \<open>CanonicalizeMeta ''{"b":1,"a":{"d":[2,{"y":0,"x":1}],"c":3}}''
     = Inr ''{"a":{"c":3,"d":[2,{"x":1,"y":0}]},"b":1}''\<close>
  by code_simp

lemma reordered_same:
  "sameUpToKeyOrder
   (JObject [(''b'', JNumber ''1''),
     (''a'', JObject [(''d'', JArray [JNumber ''2'',
                                     JObject [(''y'', JNumber ''0''), (''x'', JNumber ''1'')]]),
                     (''c'', JNumber ''3'')])])
   (JObject [(''a'', JObject [(''c'', JNumber ''3''),
        (''d'', JArray [JNumber ''2'',
                        JObject [(''x'', JNumber ''1''), (''y'', JNumber ''0'')]])]),
      (''b'', JNumber ''1'')])"
  by (auto intro!: sameUpToKeyOrder.intros)

text \<open>
  C2.  Let two metadata texts decode to values that differ only in the order of the keys
  of their objects, at any depth.  Then \<open>CanonicalizeMeta\<close> gives the same result for both,
  byte for byte, and two records that differ only in these metadata get the same result
  from \<open>HashIntent\<close>.  Every object, at every depth, is written with its keys in ascending
  order of their bytes: the text of an object is the list of its members taken in the
  order of a sorted list of its keys, each key once when the keys are distinct, and each
  value written by the same function.
\<close>

theorem CanonicalizeMeta_key_order:
  assumes "decodeJSON raw1 = Inr v1" and "decodeJSON raw2 = Inr v2"
    and "sameUpToKeyOrder v1 v2"
  shows "CanonicalizeMeta raw1 = CanonicalizeMeta raw2
     \<and> HashIntent (r\<lparr>Meta := raw1\<rparr>) = HashIntent (r\<lparr>Meta := raw2\<rparr>)
     \<and> (\<forall>obj. \<exists>keys. sorted keys \<and> set keys = fst ` set obj
            \<and> length keys = length obj \<and> distinct keys = distinct (map fst obj)
            \<and> writeJSONValue (JObject obj)
              = ''{'' @ commaSep (map (\<lambda>key. jsonMarshalString key @ '':''
                                               @ writeJSONValue (the (map_of obj key))) keys)
                @ ''}'')"
proof -
  have w: "writeJSONValue v1 = writeJSONValue v2"
    using assms(3) by (rule writeJSONValue_key_order)
  have c: "CanonicalizeMeta raw1 = CanonicalizeMeta raw2"
    using sameUpToKeyOrder_object[OF assms(3)] w
    by (auto simp: CanonicalizeMeta_decoded[OF assms(1)] CanonicalizeMeta_decoded[OF assms(2)]
        split: json.splits simp del: writeJSONValue.simps)
  from assms(1,2) have ne: "raw1 \<noteq> []" "raw2 \<noteq> []"
    using decodeJSON_Nil by auto
  have h: "HashIntent (r\<lparr>Meta := raw1\<rparr>) = HashIntent (r\<lparr>Meta := raw2\<rparr>)"
    using ne c
    by (simp add: HashIntent_def canonicalIntentPreimage_def Normalize_Meta_update
        writeFields_Meta_update split: sum.split)
  have s: "\<exists>keys. sorted keys \<and> set keys = fst ` set obj
            \<and> length keys = length obj \<and> distinct keys = distinct (map fst obj)
            \<and> writeJSONValue (JObject obj)
              = ''{'' @ commaSep (map (\<lambda>key. jsonMarshalString key @ '':''
                                               @ writeJSONValue (the (map_of obj key))) keys)
                @ ''}''" for obj
    by (rule exI[of _ "sort (map fst obj)"]) (simp add: Let_def)
  from c h s show ?thesis by blast
qed

theorem CanonicalizeMeta_key_order_witness:
  \<open>CanonicalizeMeta ''{"b":1,"a":{"d":[2,{"y":0,"x":1}],"c":3}}''
     = Inr ''{"a":{"c":3,"d":[2,{"x":1,"y":0}]},"b":1}''
   \<and> CanonicalizeMeta ''{"a":{"c":3,"d":[2,{"x":1,"y":0}]},"b":1}''
     = Inr ''{"a":{"c":3,"d":[2,{"x":1,"y":0}]},"b":1}''
   \<and> HashIntent (exampleRecord\<lparr>Meta := ''{"b":1,"a":{"d":[2,{"y":0,"x":1}],"c":3}}''\<rparr>)
     = HashIntent (exampleRecord\<lparr>Meta := ''{"a":{"c":3,"d":[2,{"x":1,"y":0}]},"b":1}''\<rparr>)\<close>
  using CanonicalizeMeta_key_order[OF reordered_decode1 reordered_decode2 reordered_same,
      of exampleRecord] reordered_canonical
  by simp


section \<open>Properties of the store\<close>

subsection \<open>Metadata that cannot be decoded\<close>

lemma filterLoop_error:
  "r \<in> set intents \<Longrightarrow> matchesMetaFilters (Meta r) filters = Inl e \<Longrightarrow>
   \<exists>e'. filterLoop intents filters acc = Inl e'"
proof (induction intents arbitrary: acc)
  case Nil
  then show ?case by simp
next
  case (Cons x xs)
  then show ?case
    by (cases "matchesMetaFilters (Meta x) filters") auto
qed

lemma filterLoop_error_wrapped:
  "filterLoop intents filters acc = Inl e \<Longrightarrow>
   \<exists>r \<in> set intents. matchesMetaFilters (Meta r) filters = Inl e"
proof (induction intents arbitrary: acc)
  case Nil
  then show ?case by simp
next
  case (Cons x xs)
  then show ?case
    by (cases "matchesMetaFilters (Meta x) filters") auto
qed

lemma matchesMetaFilters_Inl:
  "matchesMetaFilters raw filters = Inl e \<longleftrightarrow>
   filters \<noteq> [] \<and> raw \<noteq> [] \<and> (\<exists>e0. unmarshalMap raw = Inl e0 \<and> e = Wrapped ''decode meta'' e0)"
  by (auto simp: matchesMetaFilters_def split: sum.splits)

lemma malformed_meta: \<open>unmarshalMap ''{"env":'' = Inl DecodeError\<close>
  by code_simp

lemma malformed_filter:
  \<open>FilterIntentsByMeta
     [exampleRecord\<lparr>ID := ''a'', Meta := ''{"env":"prod"}''\<rparr>,
      exampleRecord\<lparr>ID := ''b'', Meta := ''{"env":''\<rparr>]
     [(''env'', ''prod'')]
   = Inl (Wrapped ''decode meta'' DecodeError)\<close>
  by code_simp

lemma wellformed_filter:
  \<open>FilterIntentsByMeta
     [exampleRecord\<lparr>ID := ''a'', Meta := ''{"env":"prod"}''\<rparr>,
      exampleRecord\<lparr>ID := ''b'', Meta := ''{"env":"staging"}''\<rparr>,
      exampleRecord\<lparr>ID := ''c'', Meta := ''{"env":"prod","count":2}''\<rparr>]
     [(''env'', ''prod'')]
   = Inr [exampleRecord\<lparr>ID := ''a'', Meta := ''{"env":"prod"}''\<rparr>,
          exampleRecord\<lparr>ID := ''c'', Meta := ''{"env":"prod","count":2}''\<rparr>]\<close>
  by code_simp

text \<open>
  C8.  A decode failure is an error of \<^verbatim>\<open>json.Unmarshal\<close> into a \<^verbatim>\<open>map[string]any\<close>: the
  text is not one JSON value, or the value is neither an object nor \<^verbatim>\<open>null\<close>, or a number
  in it is out of the range of \<^verbatim>\<open>float64\<close>.  When the filter set is not empty and the
  non-empty metadata of some record of the input fail to decode, the call fails with an
  error wrapped as \<^verbatim>\<open>decode meta: ...\<close> and returns no list.  Conversely, a call with a
  non-empty filter set that returns a list has decoded the non-empty metadata of every
  record of the input: no record with undecodable metadata is skipped.  (With an empty
  filter set the call returns its input and decodes nothing, the identity of an empty
  filter set.)
\<close>

theorem FilterIntentsByMeta_decode_failure:
  "(filters \<noteq> [] \<longrightarrow> r \<in> set intents \<longrightarrow> Meta r \<noteq> [] \<longrightarrow> unmarshalMap (Meta r) = Inl e \<longrightarrow>
      (\<exists>e'. FilterIntentsByMeta intents filters = Inl (Wrapped ''decode meta'' e'))
      \<and> (\<forall>out. FilterIntentsByMeta intents filters \<noteq> Inr out))
   \<and> (FilterIntentsByMeta intents filters = Inr out \<longrightarrow> filters \<noteq> [] \<longrightarrow>
      (\<forall>r \<in> set intents. Meta r = [] \<or> (\<exists>payload. unmarshalMap (Meta r) = Inr payload)))"
proof -
  have 1: "\<exists>e'. FilterIntentsByMeta intents filters = Inl (Wrapped ''decode meta'' e')"
    if "filters \<noteq> []" "r \<in> set intents" "Meta r \<noteq> []" "unmarshalMap (Meta r) = Inl e"
  proof -
    from that have "matchesMetaFilters (Meta r) filters = Inl (Wrapped ''decode meta'' e)"
      by (simp add: matchesMetaFilters_Inl)
    from filterLoop_error[OF that(2) this] obtain e' where e': "filterLoop intents filters [] = Inl e'"
      by blast
    from filterLoop_error_wrapped[OF this] obtain e0 where "e' = Wrapped ''decode meta'' e0"
      by (auto simp: matchesMetaFilters_Inl)
    with e' that(1) show ?thesis by (simp add: FilterIntentsByMeta_def)
  qed
  have 2: "Meta r = [] \<or> (\<exists>payload. unmarshalMap (Meta r) = Inr payload)"
    if ok: "FilterIntentsByMeta intents filters = Inr out" and ne: "filters \<noteq> []"
      and r: "r \<in> set intents" for r
  proof (rule ccontr)
    assume "\<not> ?thesis"
    then obtain e0 where "Meta r \<noteq> []" "unmarshalMap (Meta r) = Inl e0"
      by (cases "unmarshalMap (Meta r)") auto
    with ne r have "matchesMetaFilters (Meta r) filters = Inl (Wrapped ''decode meta'' e0)"
      by (simp add: matchesMetaFilters_Inl)
    from filterLoop_error[OF r this, of "[]"] ok ne show False
      by (auto simp: FilterIntentsByMeta_def)
  qed
  from 1 2 show ?thesis by fastforce
qed

theorem FilterIntentsByMeta_decode_failure_witness:
  \<open>unmarshalMap ''{"env":'' = Inl DecodeError
   \<and> FilterIntentsByMeta
       [exampleRecord\<lparr>ID := ''a'', Meta := ''{"env":"prod"}''\<rparr>,
        exampleRecord\<lparr>ID := ''b'', Meta := ''{"env":''\<rparr>]
       [(''env'', ''prod'')]
     = Inl (Wrapped ''decode meta'' DecodeError)
   \<and> (\<forall>out. FilterIntentsByMeta
       [exampleRecord\<lparr>ID := ''a'', Meta := ''{"env":"prod"}''\<rparr>,
        exampleRecord\<lparr>ID := ''b'', Meta := ''{"env":''\<rparr>]
       [(''env'', ''prod'')] \<noteq> Inr out)\<close>
  using FilterIntentsByMeta_decode_failure[where filters = "[(''env'', ''prod'')]"
      and r = \<open>exampleRecord\<lparr>ID := ''b'', Meta := ''{"env":''\<rparr>\<close>
      and intents = \<open>[exampleRecord\<lparr>ID := ''a'', Meta := ''{"env":"prod"}''\<rparr>,
                      exampleRecord\<lparr>ID := ''b'', Meta := ''{"env":''\<rparr>]\<close>
      and e = DecodeError]
    malformed_meta malformed_filter
  by simp


subsection \<open>Listing\<close>






end
